theory Spec2Isabelle
  imports Complex_Main "HOL-Library.Monad_Syntax"
begin

section \<open>Scope\<close>

text \<open>
  This theory models the calculation engine of the project report: the tax calculator
  \<^verbatim>\<open>calculateTax\<close>, the two lookup helpers \<^verbatim>\<open>getVal\<close> and \<^verbatim>\<open>sumGroup\<close> of
  \<^verbatim>\<open>calculateAll\<close>, and those blocks of the body that \<^verbatim>\<open>calculateAll\<close> runs for
  each year which carry state from one year to the next: revenue, cost of goods sold and
  the target gross-profit ratio; the inventory entries of the current assets; the fixed
  assets; and the end of the year from the cash flow statement to the key ratios. Each
  block is a function of the variables that are in scope where it starts, in the order
  of the source. Entries of the result map that hold objects or arrays (the audit and
  debug entries) are not numbers and are left out.
\<close>

section \<open>Numbers and truthiness\<close>

text \<open>
  The engine computes on JavaScript numbers. They are modelled as exact reals: every
  input is taken to be a finite number and rounding and overflow are not modelled.
  Only the ratios are modelled a second time, over numbers that can be \<^verbatim>\<open>NaN\<close> or
  infinite and with overflow, in a section of their own.
  A cell value has already been through \<^verbatim>\<open>parseFloat(dp?.value || 0)\<close>, so a missing
  or empty value is \<open>0\<close>.

  \<^verbatim>\<open>a || b\<close> on numbers yields \<open>b\<close> when \<open>a\<close> is \<open>0\<close> and \<open>a\<close> otherwise; on a
  property read it also yields \<open>b\<close> when the property is absent (\<^verbatim>\<open>undefined\<close>).
\<close>

definition js_or :: "real \<Rightarrow> real \<Rightarrow> real" where
  "js_or a b = (if a \<noteq> 0 then a else b)"

definition get_or :: "(string \<rightharpoonup> real) \<Rightarrow> string \<Rightarrow> real \<Rightarrow> real" where
  "get_or m k b = (case m k of None \<Rightarrow> b | Some v \<Rightarrow> js_or v b)"

section \<open>Tax calculator\<close>

text \<open>
  \<^verbatim>\<open>calculateTax(pbt, regime)\<close> returns the object \<^verbatim>\<open>{tax, surcharge, cess, total}\<close>.
  The regime is compared with \<^verbatim>\<open>===\<close> against three string literals; any other
  value takes none of the branches.
\<close>

record tax_details =
  tax :: real
  surcharge :: real
  cess :: real
  total :: real

definition calculateTax :: "real \<Rightarrow> string \<Rightarrow> tax_details" where
  "calculateTax pbt regime =
    (if pbt \<le> 0 then \<lparr>tax = 0, surcharge = 0, cess = 0, total = 0\<rparr>
     else
       let (tax, surcharge, cess) =
         (if regime = ''domestic_22'' then
            (let tax = pbt * 0.22;
                 surcharge = tax * 0.10;
                 cess = (tax + surcharge) * 0.04
             in (tax, surcharge, cess))
          else if regime = ''llp'' then
            (let tax = pbt * 0.30;
                 surcharge = (if pbt > 10000000 then tax * 0.12 else 0);
                 cess = (tax + surcharge) * 0.04
             in (tax, surcharge, cess))
          else if regime = ''proprietorship'' then
            (let taxable = pbt;
                 tax = 0;
                 tax = (if taxable > 300000
                        then tax + (min taxable 700000 - 300000) * 0.05 else tax);
                 tax = (if taxable > 700000
                        then tax + (min taxable 1000000 - 700000) * 0.10 else tax);
                 tax = (if taxable > 1000000
                        then tax + (min taxable 1200000 - 1000000) * 0.15 else tax);
                 tax = (if taxable > 1200000
                        then tax + (min taxable 1500000 - 1200000) * 0.20 else tax);
                 tax = (if taxable > 1500000
                        then tax + (taxable - 1500000) * 0.30 else tax);
                 tax = (if pbt \<le> 700000 then 0 else tax)
             in (tax, 0, 0))
          else (0, 0, 0))
       in \<lparr>tax = tax, surcharge = surcharge, cess = cess,
           total = tax + surcharge + cess\<rparr>)"

text \<open>Auxiliary view of the slab schedule, used only in the proofs.\<close>

definition slab :: "real \<Rightarrow> real \<Rightarrow> real \<Rightarrow> real \<Rightarrow> real" where
  "slab lo hi rate taxable = (if taxable > lo then (min taxable hi - lo) * rate else 0)"

definition top_slab :: "real \<Rightarrow> real" where
  "top_slab taxable = (if taxable > 1500000 then (taxable - 1500000) * 0.30 else 0)"

definition slab_total :: "real \<Rightarrow> real" where
  "slab_total p =
     slab 300000 700000 0.05 p + slab 700000 1000000 0.10 p
       + slab 1000000 1200000 0.15 p + slab 1200000 1500000 0.20 p + top_slab p"

section \<open>Strings\<close>

text \<open>
  Names are ASCII strings. \<^verbatim>\<open>toLowerCase\<close> maps the letters \<open>A\<close> to \<open>Z\<close> to lower
  case and leaves every other character alone.
\<close>

definition toLowerCase :: "string \<Rightarrow> string" where
  "toLowerCase s =
     map (\<lambda>c. case map_of (zip ''ABCDEFGHIJKLMNOPQRSTUVWXYZ'' ''abcdefghijklmnopqrstuvwxyz'') c of
                 None \<Rightarrow> c | Some d \<Rightarrow> d) s"

text \<open>\<^verbatim>\<open>s.startsWith(t)\<close> and \<^verbatim>\<open>s.includes(t)\<close>.\<close>

fun startsWith :: "string \<Rightarrow> string \<Rightarrow> bool" where
  "startsWith s [] = True"
| "startsWith [] (c # t) = False"
| "startsWith (a # s) (c # t) = (a = c \<and> startsWith s t)"

fun js_includes :: "string \<Rightarrow> string \<Rightarrow> bool" where
  "js_includes [] t = (t = [])"
| "js_includes (a # s) t = (startsWith (a # s) t \<or> js_includes s t)"

text \<open>The regular-expression class \<^verbatim>\<open>\s\<close> on ASCII: space, tab, LF, VT, FF, CR.\<close>

definition is_space :: "char \<Rightarrow> bool" where
  "is_space c = (c \<in> set [CHR '' '', CHR 0x09, CHR 0x0A, CHR 0x0B, CHR 0x0C, CHR 0x0D])"

text \<open>\<^verbatim>\<open>s.trim()\<close>.\<close>

definition trim :: "string \<Rightarrow> string" where
  "trim s = rev (dropWhile is_space (rev (dropWhile is_space s)))"

text \<open>
  \<^verbatim>\<open>s.replace(/\s+/g, '_')\<close>: every maximal run of white space becomes one underscore.
  The flag records that the previous character was white space.
\<close>

fun replace_spaces :: "bool \<Rightarrow> string \<Rightarrow> string" where
  "replace_spaces in_run [] = []"
| "replace_spaces in_run (c # s) =
     (if is_space c then (if in_run then replace_spaces True s
                          else CHR ''_'' # replace_spaces True s)
      else c # replace_spaces False s)"

text \<open>\<^verbatim>\<open>s.replace(/[^a-z0-9]/g, '')\<close>.\<close>

definition strip_non_alnum :: "string \<Rightarrow> string" where
  "strip_non_alnum s = filter (\<lambda>c. c \<in> set ''abcdefghijklmnopqrstuvwxyz0123456789'') s"

section \<open>Rows and groups\<close>

text \<open>
  A data point holds the id of its year setting and its value; a row holds its name, its
  flags, an optional system tag and its data points; a group holds its name, page type,
  optional system tag, cash-flow bucket and nature, and its rows in order. An absent
  (\<^verbatim>\<open>null\<close> or \<^verbatim>\<open>undefined\<close>) tag is \<open>None\<close>.
\<close>

record datapoint =
  year_setting :: nat
  dp_value :: real

record row =
  row_name :: string
  is_hidden :: bool
  is_calculated :: bool
  is_total_row :: bool
  row_system_tag :: "string option"
  row_data :: "datapoint list"

record group =
  group_name :: string
  page_type :: string
  group_system_tag :: "string option"
  cf_bucket :: "string option"
  nature :: "string option"
  rows :: "row list"

text \<open>
  The result map of one year sends a label to a number; \<^verbatim>\<open>results\<close> holds one such map
  per year id, created empty for every year setting before the first year is processed.
\<close>

type_synonym year_results = "string \<rightharpoonup> real"

type_synonym results = "nat \<Rightarrow> year_results"

text \<open>The result maps as the engine creates them: an empty map for every year.\<close>

definition empty_results :: results where
  "empty_results = (\<lambda>yearId. Map.empty)"

text \<open>
  The value of a row in a year:
  \<^verbatim>\<open>const dp = row.data.find(d => d.year_setting === yearId); parseFloat(dp?.value || 0)\<close>.
\<close>

definition dp_val :: "row \<Rightarrow> nat \<Rightarrow> real" where
  "dp_val row yearId =
     (case find (\<lambda>d. year_setting d = yearId) (row_data row) of
        None \<Rightarrow> 0 | Some dp \<Rightarrow> dp_value dp)"

subsection \<open>getVal\<close>

text \<open>
  The two nested \<^verbatim>\<open>for ... of\<close> loops of \<^verbatim>\<open>getVal\<close>, which return from inside the
  loop body; \<open>None\<close> means that the loop ran to its end.
\<close>

fun getVal_rows :: "string \<Rightarrow> nat \<Rightarrow> row list \<Rightarrow> real option" where
  "getVal_rows keyLower yearId [] = None"
| "getVal_rows keyLower yearId (row # rest) =
     (let rowLower = toLowerCase (row_name row) in
      if rowLower = keyLower then Some (dp_val row yearId)
      else if keyLower = ''capital''
              \<and> (rowLower = ''ordinary share capital'' \<or> rowLower = ''share capital'')
      then Some (dp_val row yearId)
      else getVal_rows keyLower yearId rest)"

fun getVal_groups :: "string \<Rightarrow> nat \<Rightarrow> group list \<Rightarrow> real option" where
  "getVal_groups keyLower yearId [] = None"
| "getVal_groups keyLower yearId (g # gs) =
     (case getVal_rows keyLower yearId (rows g) of
        Some v \<Rightarrow> Some v
      | None \<Rightarrow> getVal_groups keyLower yearId gs)"

definition getVal :: "results \<Rightarrow> group list \<Rightarrow> nat \<Rightarrow> string \<Rightarrow> real" where
  "getVal results allGroups yearId key =
     (case results yearId key of
        Some v \<Rightarrow> v
      | None \<Rightarrow>
          (case getVal_groups (toLowerCase key) yearId allGroups of
             Some v \<Rightarrow> v
           | None \<Rightarrow> 0))"



subsection \<open>sumGroup\<close>

text \<open>The predicate of \<^verbatim>\<open>allGroups.find\<close> in \<^verbatim>\<open>sumGroup\<close>.\<close>

definition group_matches :: "string \<Rightarrow> group \<Rightarrow> bool" where
  "group_matches groupNamePart g =
     (js_includes (toLowerCase (group_name g)) (toLowerCase groupNamePart)
      \<or> (case group_system_tag g of
            None \<Rightarrow> False
          | Some t \<Rightarrow>
              t \<noteq> [] \<and> js_includes (toLowerCase t)
                                (replace_spaces False (toLowerCase groupNamePart))))"

definition isExcluded :: "string list \<Rightarrow> row \<Rightarrow> bool" where
  "isExcluded excludeNames row =
     (let cleanName = strip_non_alnum (toLowerCase (row_name row)) in
      list_ex (\<lambda>ex. js_includes cleanName (strip_non_alnum (toLowerCase ex))) excludeNames
      \<or> js_includes cleanName ''depreciation''
      \<or> startsWith cleanName ''depr''
      \<or> js_includes cleanName ''interest'')"

text \<open>Whether the body of the \<^verbatim>\<open>forEach\<close> adds the row's value to the sum.\<close>

definition row_counted :: "string list \<Rightarrow> row \<Rightarrow> bool" where
  "row_counted excludeNames row =
     (\<not> is_hidden row \<and> \<not> isExcluded excludeNames row \<and> \<not> is_calculated row
      \<and> \<not> is_total_row row \<and> \<not> startsWith (row_name row) ''='')"

definition sumGroup_row :: "nat \<Rightarrow> string list \<Rightarrow> real \<Rightarrow> row \<Rightarrow> real" where
  "sumGroup_row yearId excludeNames acc row =
     (if is_hidden row then acc
      else if \<not> isExcluded excludeNames row \<and> \<not> is_calculated row \<and> \<not> is_total_row row
              \<and> \<not> startsWith (row_name row) ''=''
      then acc + dp_val row yearId
      else acc)"

definition sumGroup :: "group list \<Rightarrow> nat \<Rightarrow> string \<Rightarrow> string list \<Rightarrow> real" where
  "sumGroup allGroups yearId groupNamePart excludeNames =
     (case find (group_matches groupNamePart) allGroups of
        None \<Rightarrow> 0
      | Some g \<Rightarrow> foldl (sumGroup_row yearId excludeNames) 0 (rows g))"

section \<open>The yearly waterfall: operating statement\<close>

text \<open>
  A year setting has an id and a label such as \<open>2025-2026\<close>. The engine walks the year
  settings sorted by the first four-digit number in the label; \<^verbatim>\<open>yearIndex\<close> counts
  in that sorted order and \<^verbatim>\<open>prevYearResults\<close> is the result map of the year walked
  just before (\<^verbatim>\<open>null\<close>, here \<open>None\<close>, for the first). Year ids are distinct, so
  while a year is processed nothing is written to the map of the previous year, but for
  a forced opening stock, which no read of that map looks at; the map is therefore
  passed to the model as a value.
\<close>

record year_setting_rec =
  ys_id :: nat
  ys_year :: string

definition is_digit :: "char \<Rightarrow> bool" where
  "is_digit c = (c \<in> set ''0123456789'')"

definition digit_value :: "char \<Rightarrow> nat" where
  "digit_value c =
     (case map_of (zip ''0123456789'' [0, 1, 2, 3, 4, 5, 6, 7, 8, 9]) c of
        None \<Rightarrow> 0 | Some n \<Rightarrow> n)"

definition digits_value :: "string \<Rightarrow> nat" where
  "digits_value ds = foldl (\<lambda>n c. 10 * n + digit_value c) 0 ds"

text \<open>\<^verbatim>\<open>yStr.toString().match(/\d{4}/)\<close>: the leftmost four consecutive digits.\<close>

fun match_4_digits :: "string \<Rightarrow> string option" where
  "match_4_digits [] = None"
| "match_4_digits (c # s) =
     (if 4 \<le> length (c # s) \<and> list_all is_digit (take 4 (c # s))
      then Some (take 4 (c # s))
      else match_4_digits s)"

definition getYearNum :: "string \<Rightarrow> nat" where
  "getYearNum yStr = (case match_4_digits yStr of None \<Rightarrow> 0 | Some m \<Rightarrow> digits_value m)"

text \<open>
  \<^verbatim>\<open>[...yearSettings].sort((a, b) => getYearNum(a.year) - getYearNum(b.year))\<close>; the
  sort of an array is stable.
\<close>

definition sortedYearSettings :: "year_setting_rec list \<Rightarrow> year_setting_rec list" where
  "sortedYearSettings yearSettings = sort_key (\<lambda>y. getYearNum (ys_year y)) yearSettings"

text \<open>
  Reads of the previous year's map: \<^verbatim>\<open>prevYearResults?.[k] || b\<close>, and the assignment
  \<^verbatim>\<open>results[yId][k] = v\<close>.
\<close>

definition prev_get_or :: "year_results option \<Rightarrow> string \<Rightarrow> real \<Rightarrow> real" where
  "prev_get_or prev k b = (case prev of None \<Rightarrow> b | Some p \<Rightarrow> get_or p k b)"

definition set_result :: "results \<Rightarrow> nat \<Rightarrow> string \<Rightarrow> real \<Rightarrow> results" where
  "set_result results yId k v = results(yId := (results yId)(k \<mapsto> v))"

subsection \<open>Revenue\<close>

definition revenue_row :: "nat \<Rightarrow> real \<Rightarrow> row \<Rightarrow> real" where
  "revenue_row yId totalRevenue row =
     (if is_hidden row then totalRevenue
      else if \<not> is_calculated row \<and> \<not> is_total_row row \<and> \<not> startsWith (row_name row) ''=''
      then totalRevenue + dp_val row yId
      else totalRevenue)"

definition total_revenue :: "group list \<Rightarrow> nat \<Rightarrow> real" where
  "total_revenue allGroups yId =
     (case find (\<lambda>g. js_includes (toLowerCase (group_name g)) ''revenue'') allGroups of
        None \<Rightarrow> 0
      | Some revenueGroup \<Rightarrow> foldl (revenue_row yId) 0 (rows revenueGroup))"

subsection \<open>Cost of goods sold\<close>

text \<open>
  The local variables of the COGS block together with the result maps, which the loop
  over the rows of the COGS group updates.
\<close>

record cogs_state =
  openStockRM :: real
  closeStockRM :: real
  purchasesRM :: real
  otherRMCosts :: real
  manufacturingExpenses :: real
  openWIP :: real
  closeWIP :: real
  openFG :: real
  closeFG :: real
  cogs_results :: results

definition cogs_init :: "results \<Rightarrow> cogs_state" where
  "cogs_init results =
     \<lparr>openStockRM = 0, closeStockRM = 0, purchasesRM = 0, otherRMCosts = 0,
      manufacturingExpenses = 0, openWIP = 0, closeWIP = 0, openFG = 0, closeFG = 0,
      cogs_results = results\<rparr>"

definition is_cogs_group :: "group \<Rightarrow> bool" where
  "is_cogs_group g =
     (js_includes (toLowerCase (group_name g)) ''cost of goods sold''
      \<or> js_includes (toLowerCase (group_name g)) ''cogs'')"

text \<open>
  The chain of tests on the lower-cased row name in the loop body, in the order of the
  source; the first test that succeeds decides what the row feeds.
\<close>

datatype cogs_category =
  OpeningRM | ClosingRM | PurchaseRM | FreightIn | OpeningWIP | ClosingWIP
  | OpeningFG | ClosingFG | Manufacturing

definition cogs_category_of :: "string \<Rightarrow> cogs_category" where
  "cogs_category_of name =
     (if js_includes name ''opening'' \<and> js_includes name ''stock'' \<and> js_includes name ''raw''
      then OpeningRM
      else if js_includes name ''closing'' \<and> js_includes name ''stock''
              \<and> js_includes name ''raw''
      then ClosingRM
      else if js_includes name ''purchase'' \<and> js_includes name ''raw'' then PurchaseRM
      else if js_includes name ''freight'' \<and> js_includes name ''in'' then FreightIn
      else if js_includes name ''opening'' \<and> js_includes name ''work''
              \<and> js_includes name ''process''
      then OpeningWIP
      else if js_includes name ''closing'' \<and> js_includes name ''work''
              \<and> js_includes name ''process''
      then ClosingWIP
      else if js_includes name ''opening'' \<and> js_includes name ''finished'' then OpeningFG
      else if js_includes name ''closing'' \<and> js_includes name ''finished'' then ClosingFG
      else Manufacturing)"

text \<open>The body of \<^verbatim>\<open>cogsGroup.rows.forEach\<close>.\<close>

definition cogs_row ::
  "nat \<Rightarrow> nat \<Rightarrow> year_results option \<Rightarrow> cogs_state \<Rightarrow> row \<Rightarrow> cogs_state" where
  "cogs_row yearIndex yId prevYearResults st row =
     (if is_hidden row then st
      else if \<not> is_calculated row \<and> \<not> is_total_row row \<and> \<not> startsWith (row_name row) ''=''
      then
        (let v = dp_val row yId;
             name = toLowerCase (row_name row)
         in
         case cogs_category_of name of
           OpeningRM \<Rightarrow>
             (let opening =
                    (case cogs_results st yId ''_forced_opening_stock_rm'' of
                       Some forced \<Rightarrow> forced
                     | None \<Rightarrow>
                         if yearIndex > 0
                         then prev_get_or prevYearResults ''Closing Stock (Raw Materials)'' v
                         else v)
              in st\<lparr>openStockRM := opening,
                    cogs_results :=
                      set_result (set_result (cogs_results st) yId (row_name row) opening)
                        yId ''Opening Stock (Raw Materials)'' opening\<rparr>)
         | ClosingRM \<Rightarrow> st\<lparr>closeStockRM := v\<rparr>
         | PurchaseRM \<Rightarrow> st\<lparr>purchasesRM := purchasesRM st + v\<rparr>
         | FreightIn \<Rightarrow> st\<lparr>otherRMCosts := otherRMCosts st + v\<rparr>
         | OpeningWIP \<Rightarrow>
             st\<lparr>openWIP :=
                  (if yearIndex = 0 then v
                   else prev_get_or prevYearResults ''Closing Stock (Work-in-Process)'' v)\<rparr>
         | ClosingWIP \<Rightarrow> st\<lparr>closeWIP := v\<rparr>
         | OpeningFG \<Rightarrow>
             st\<lparr>openFG :=
                  (if yearIndex = 0 then v
                   else prev_get_or prevYearResults ''Closing Stock (Finished Goods)'' v)\<rparr>
         | ClosingFG \<Rightarrow> st\<lparr>closeFG := v\<rparr>
         | Manufacturing \<Rightarrow> st\<lparr>manufacturingExpenses := manufacturingExpenses st + v\<rparr>)
      else st)"

definition cogs_loop ::
  "group list \<Rightarrow> nat \<Rightarrow> nat \<Rightarrow> year_results option \<Rightarrow> results \<Rightarrow> cogs_state" where
  "cogs_loop allGroups yearIndex yId prevYearResults results =
     (case find is_cogs_group allGroups of
        None \<Rightarrow> cogs_init results
      | Some cogsGroup \<Rightarrow>
          foldl (cogs_row yearIndex yId prevYearResults) (cogs_init results) (rows cogsGroup))"

text \<open>
  The rows that the loop treats as opening stock of raw materials: they pass the guards
  of the loop body and their lower-cased name contains \<open>opening\<close>, \<open>stock\<close> and \<open>raw\<close>.
\<close>

definition opening_rm_row :: "row \<Rightarrow> bool" where
  "opening_rm_row row =
     (\<not> is_hidden row \<and> \<not> is_calculated row \<and> \<not> is_total_row row
      \<and> \<not> startsWith (row_name row) ''=''
      \<and> js_includes (toLowerCase (row_name row)) ''opening''
      \<and> js_includes (toLowerCase (row_name row)) ''stock''
      \<and> js_includes (toLowerCase (row_name row)) ''raw'')"

subsection \<open>Target gross-profit ratio\<close>

text \<open>
  \<^verbatim>\<open>gprSettings\<close> may be absent; a missing increment reads as \<open>0\<close> through
  \<^verbatim>\<open>|| 0\<close>.
\<close>

record gpr_settings =
  enabled :: bool
  firstYearIncrement :: real
  subsequentIncrement :: real

definition gpr_enabled :: "gpr_settings option \<Rightarrow> bool" where
  "gpr_enabled gprSettings = (case gprSettings of None \<Rightarrow> False | Some g \<Rightarrow> enabled g)"

definition gpr_increment :: "gpr_settings option \<Rightarrow> nat \<Rightarrow> real" where
  "gpr_increment gprSettings yearIndex =
     (case gprSettings of
        None \<Rightarrow> 0
      | Some g \<Rightarrow>
          if yearIndex = 1 then js_or (firstYearIncrement g) 0
          else js_or (subsequentIncrement g) 0)"

definition truthy_entry :: "year_results \<Rightarrow> string \<Rightarrow> bool" where
  "truthy_entry m k = (case m k of None \<Rightarrow> False | Some v \<Rightarrow> v \<noteq> 0)"

text \<open>The block \<^verbatim>\<open>if (gprSettings?.enabled && totalRevenue > 0) { ... }\<close>.\<close>

definition gpr_logic ::
  "gpr_settings option \<Rightarrow> year_setting_rec list \<Rightarrow> nat \<Rightarrow> nat \<Rightarrow> year_results option
     \<Rightarrow> real \<Rightarrow> cogs_state \<Rightarrow> cogs_state" where
  "gpr_logic gprSettings yearSettings yearIndex yId prevYearResults totalRevenue st =
     (if gpr_enabled gprSettings \<and> totalRevenue > 0 then
        (if yearIndex = 0 then
           (let actualRMConsumed =
                  openStockRM st + purchasesRM st + otherRMCosts st - closeStockRM st;
                actualGrossFactoryCost = actualRMConsumed + manufacturingExpenses st;
                actualFactoryCostProduced = actualGrossFactoryCost + openWIP st - closeWIP st;
                actualCOGS = actualFactoryCostProduced + openFG st - closeFG st;
                actualGrossProfit = totalRevenue - actualCOGS;
                actualGPR = (actualGrossProfit / totalRevenue) * 100
            in st\<lparr>cogs_results := set_result (cogs_results st) yId ''_actual_gpr'' actualGPR\<rparr>)
         else
           (let prevGPR = prev_get_or prevYearResults ''_actual_gpr'' 0;
                targetGPR = prevGPR + gpr_increment gprSettings yearIndex;
                res1 = set_result (cogs_results st) yId ''_actual_gpr'' targetGPR;
                targetGrossProfit = totalRevenue * (targetGPR / 100);
                targetCOGS = totalRevenue - targetGrossProfit;
                fixedPart = (openStockRM st + purchasesRM st + otherRMCosts st)
                              + manufacturingExpenses st + (openWIP st - closeWIP st)
                              + (openFG st - closeFG st);
                closing = fixedPart - targetCOGS;
                res2 = set_result res1 yId ''Closing Stock (Raw Materials)'' closing;
                res3 = (if truthy_entry (res2 yId) ''Closing Stock''
                        then set_result res2 yId ''Closing Stock'' closing else res2);
                res4 = (if yearIndex + 1 < length yearSettings
                        then set_result res3 (ys_id (yearSettings ! (yearIndex + 1)))
                               ''_forced_opening_stock_rm'' closing
                        else res3)
            in st\<lparr>closeStockRM := closing, cogs_results := res4\<rparr>))
      else st)"

text \<open>The chain from raw material consumed to gross profit, and its entries.\<close>

definition rmConsumed :: "cogs_state \<Rightarrow> real" where
  "rmConsumed st = openStockRM st + purchasesRM st + otherRMCosts st - closeStockRM st"

definition grossFactoryCost :: "cogs_state \<Rightarrow> real" where
  "grossFactoryCost st = rmConsumed st + manufacturingExpenses st"

definition factoryCostProduced :: "cogs_state \<Rightarrow> real" where
  "factoryCostProduced st = grossFactoryCost st + openWIP st - closeWIP st"

definition cogs :: "cogs_state \<Rightarrow> real" where
  "cogs st = factoryCostProduced st + openFG st - closeFG st"

definition grossProfit :: "real \<Rightarrow> cogs_state \<Rightarrow> real" where
  "grossProfit totalRevenue st = totalRevenue - cogs st"

definition write_gross_profit :: "nat \<Rightarrow> real \<Rightarrow> cogs_state \<Rightarrow> results" where
  "write_gross_profit yId totalRevenue st =
     (let r = set_result (cogs_results st) yId ''Raw Material Consumed'' (rmConsumed st);
          r = set_result r yId ''Total Manufacturing Expenses'' (manufacturingExpenses st);
          r = set_result r yId ''Gross Factory Cost'' (grossFactoryCost st);
          r = set_result r yId ''Factory Cost of Goods Produced'' (factoryCostProduced st);
          r = set_result r yId ''Cost of Goods Sold (COGS)'' (cogs st)
      in set_result r yId ''Gross Profit'' (grossProfit totalRevenue st))"

text \<open>
  The operating statement of one year up to the gross profit: revenue and its two
  entries, the COGS loop, the target-ratio block, and the chain. The outcome holds the
  total revenue, the local variables of the COGS block and the result maps. The store
  of the gross profit ratio, which follows, is \<open>store_gross_profit_ratio\<close> below.
\<close>

record gross_profit_out =
  gp_totalRevenue :: real
  gp_state :: cogs_state
  gp_results :: results

definition gross_profit_block ::
  "group list \<Rightarrow> year_setting_rec list \<Rightarrow> gpr_settings option \<Rightarrow> nat \<Rightarrow> nat
     \<Rightarrow> year_results option \<Rightarrow> results \<Rightarrow> gross_profit_out" where
  "gross_profit_block allGroups yearSettings gprSettings yearIndex yId prevYearResults results =
     (let totalRevenue = total_revenue allGroups yId;
          r = set_result results yId ''Total Revenue'' totalRevenue;
          r = set_result r yId ''Total Sales'' totalRevenue;
          st = cogs_loop allGroups yearIndex yId prevYearResults r;
          st = gpr_logic gprSettings yearSettings yearIndex yId prevYearResults totalRevenue st
      in \<lparr>gp_totalRevenue = totalRevenue, gp_state = st,
          gp_results = write_gross_profit yId totalRevenue st\<rparr>)"

section \<open>The yearly waterfall: inventory entries of the current assets\<close>

text \<open>
  The start of the balance sheet: the sum of the current assets without cash, the three
  inventory rows as the grid has them, the closing stocks of the operating statement
  stored under the names of the asset rows and under their own names, and the sum
  adjusted from the grid values to the closing stocks.
\<close>

record current_assets_out =
  ca_nonCashCurrentAssets :: real
  ca_results :: results

definition current_assets_block ::
  "group list \<Rightarrow> nat \<Rightarrow> cogs_state \<Rightarrow> results \<Rightarrow> current_assets_out" where
  "current_assets_block allGroups yId st results =
     (let nonCashCurrentAssets = sumGroup allGroups yId ''Current assets'' [''Cash'', ''Bank''];
          gridRM = getVal results allGroups yId ''Raw materials Domestic'';
          r = set_result results yId ''Raw materials Domestic'' (closeStockRM st);
          r = set_result r yId ''Closing Stock (Raw Materials)'' (closeStockRM st);
          gridWIP = getVal r allGroups yId ''Stock in process'';
          r = set_result r yId ''Stock in process'' (closeWIP st);
          r = set_result r yId ''Closing Stock (Work-in-Process)'' (closeWIP st);
          gridFG = getVal r allGroups yId ''Finished goods'';
          r = set_result r yId ''Finished goods'' (closeFG st);
          r = set_result r yId ''Closing Stock (Finished Goods)'' (closeFG st)
      in \<lparr>ca_nonCashCurrentAssets =
            nonCashCurrentAssets - gridRM - gridWIP - gridFG
              + closeStockRM st + closeWIP st + closeFG st,
          ca_results = r\<rparr>)"

section \<open>The yearly waterfall: fixed assets\<close>

text \<open>
  An entry of the asset register (\<^verbatim>\<open>projectCostsData\<close>): whether it is an existing
  asset, the label of its first year, the id of the year of purchase, the calendar year
  in which it starts, and its amount. Absent fields are \<open>None\<close>; the id and the
  calendar year are numbers.
\<close>

record asset =
  is_existing_asset :: bool
  start_date :: "string option"
  purchase_year :: "nat option"
  start_year :: "nat option"
  amount :: real

text \<open>
  \<^verbatim>\<open>parseInt\<close> without a radix, on a string without a minus sign: leading white space
  and one plus sign are skipped; after the prefix \<open>0x\<close> or \<open>0X\<close> hexadecimal digits
  are read, otherwise decimal digits; \<open>None\<close> stands for \<^verbatim>\<open>NaN\<close>, the result when no
  digit can be read.
\<close>

definition is_hex_digit :: "char \<Rightarrow> bool" where
  "is_hex_digit c = (c \<in> set ''0123456789abcdefABCDEF'')"

definition hex_digit_value :: "char \<Rightarrow> nat" where
  "hex_digit_value c =
     (case map_of (zip ''0123456789abcdefABCDEF''
                     [0, 1, 2, 3, 4, 5, 6, 7, 8, 9, 10, 11, 12, 13, 14, 15,
                      10, 11, 12, 13, 14, 15]) c of
        None \<Rightarrow> 0 | Some n \<Rightarrow> n)"

definition hex_digits_value :: "string \<Rightarrow> nat" where
  "hex_digits_value ds = foldl (\<lambda>n c. 16 * n + hex_digit_value c) 0 ds"

definition js_parseInt :: "string \<Rightarrow> nat option" where
  "js_parseInt s =
     (let s1 = dropWhile is_space s;
          s2 = (case s1 of [] \<Rightarrow> [] | c # rest \<Rightarrow> if c = CHR ''+'' then rest else s1)
      in if startsWith s2 ''0x'' \<or> startsWith s2 ''0X''
         then (let hs = takeWhile is_hex_digit (drop 2 s2)
               in if hs = [] then None else Some (hex_digits_value hs))
         else (let ds = takeWhile is_digit s2
               in if ds = [] then None else Some (digits_value ds)))"

text \<open>The predicate of \<^verbatim>\<open>projectCostsData.filter\<close>.\<close>

definition asset_added_in_year :: "string \<Rightarrow> nat \<Rightarrow> asset \<Rightarrow> bool" where
  "asset_added_in_year currentYearLabel yId a =
     (if is_existing_asset a then False
      else if (case start_date a of None \<Rightarrow> False
               | Some d \<Rightarrow> d \<noteq> [] \<and> d = currentYearLabel)
      then True
      else if (case purchase_year a of None \<Rightarrow> False | Some p \<Rightarrow> p \<noteq> 0 \<and> p = yId)
      then True
      else if (case start_year a of None \<Rightarrow> False | Some sy \<Rightarrow> sy \<noteq> 0)
              \<and> currentYearLabel \<noteq> []
      then js_parseInt (takeWhile (\<lambda>c. c \<noteq> CHR ''-'') currentYearLabel) = start_year a
      else False)"

definition asset_additions :: "year_setting_rec list \<Rightarrow> asset list \<Rightarrow> nat \<Rightarrow> nat \<Rightarrow> real" where
  "asset_additions yearSettings projectCostsData yearIndex yId =
     (let currentYearLabel =
            (if yearIndex < length yearSettings then ys_year (yearSettings ! yearIndex)
             else [])
      in foldl (\<lambda>acc a. acc + amount a) 0
           (filter (asset_added_in_year currentYearLabel yId) projectCostsData))"

text \<open>
  The net block carried from the previous year:
  \<^verbatim>\<open>(prev && (prev["_net_block_carry"] !== undefined ? prev["_net_block_carry"]
     : (prev["Net block"] || prev["Net Block"]))) || 0\<close>.
\<close>

definition prev_net_block :: "year_results option \<Rightarrow> real" where
  "prev_net_block prevYearResults =
     (case prevYearResults of
        None \<Rightarrow> 0
      | Some p \<Rightarrow>
          (case p ''_net_block_carry'' of
             Some carry \<Rightarrow> js_or carry 0
           | None \<Rightarrow> get_or p ''Net block'' (get_or p ''Net Block'' 0)))"

text \<open>The body of \<^verbatim>\<open>fixedAssetGroup.rows.forEach\<close>.\<close>

definition fixed_asset_row :: "nat \<Rightarrow> real \<Rightarrow> real \<Rightarrow> results \<Rightarrow> row \<Rightarrow> results" where
  "fixed_asset_row yId grossBlock netBlock r row =
     (let lowerName = trim (toLowerCase (row_name row)) in
      if js_includes lowerName ''gross block'' then set_result r yId (row_name row) grossBlock
      else if lowerName = ''net block'' then set_result r yId (row_name row) netBlock
      else r)"

text \<open>
  The entries that the fixed-asset block stores: gross block, net block and the carry
  key, the rows of the fixed-asset group that name a gross or net block, and the
  additions.
\<close>

definition store_fixed_assets ::
  "group list \<Rightarrow> nat \<Rightarrow> real \<Rightarrow> real \<Rightarrow> real \<Rightarrow> results \<Rightarrow> results" where
  "store_fixed_assets allGroups yId grossBlock netBlock assetAdditions results =
     (let r = set_result results yId ''Gross block'' grossBlock;
          r = set_result r yId ''Net block'' netBlock;
          r = set_result r yId ''_net_block_carry'' netBlock;
          r = (case find (\<lambda>g. js_includes (toLowerCase (group_name g)) ''fixed''
                              \<or> group_system_tag g = Some ''fixed_assets'') allGroups of
                 None \<Rightarrow> r
               | Some fixedAssetGroup \<Rightarrow>
                   foldl (fixed_asset_row yId grossBlock netBlock) r (rows fixedAssetGroup))
      in set_result r yId ''Asset Additions'' assetAdditions)"

record fixed_assets_out =
  fa_assetAdditions :: real
  fa_grossBlock :: real
  fa_netBlock :: real
  fa_results :: results

text \<open>
  The fixed-asset block of a year; \<open>depreciation\<close> is the depreciation of the year as
  the operating statement has resolved it and stored it under \<open>Depreciation\<close>.
\<close>

definition fixed_assets_block ::
  "group list \<Rightarrow> year_setting_rec list \<Rightarrow> asset list \<Rightarrow> nat \<Rightarrow> nat \<Rightarrow> year_results option
     \<Rightarrow> real \<Rightarrow> results \<Rightarrow> fixed_assets_out" where
  "fixed_assets_block allGroups yearSettings projectCostsData yearIndex yId prevYearResults
       depreciation results =
     (let assetAdditions = asset_additions yearSettings projectCostsData yearIndex yId;
          grossBlock =
            (if yearIndex = 0
             then getVal results allGroups yId ''Gross block'' + assetAdditions
             else prev_net_block prevYearResults + assetAdditions);
          netBlock = grossBlock - depreciation
      in \<lparr>fa_assetAdditions = assetAdditions, fa_grossBlock = grossBlock,
          fa_netBlock = netBlock,
          fa_results =
            store_fixed_assets allGroups yId grossBlock netBlock assetAdditions results\<rparr>)"

section \<open>The yearly waterfall: cash flow statement, totals and ratios\<close>

text \<open>
  The part of a year after the scan of the balance-sheet rows works on local variables
  that the earlier parts have computed. The record below holds their values at the point
  where \<open>Net Cash from Operating Activities\<close> is stored; the field \<open>v_x\<close> is the
  variable \<open>x\<close>. \<open>v_investingDeltaSum\<close> and \<open>v_financingDeltaSum\<close> are the sums of the
  deltas that the scan has put into the investing and the financing bucket, and
  \<open>v_shareCapital\<close> is the outer variable of that name.
\<close>

record year_locals =
  v_cashFromOperating :: real
  v_depreciation :: real
  v_grossBlock :: real
  v_netBlock :: real
  v_totalFixedAssets :: real
  v_nonCashCurrentAssets :: real
  v_investingDeltaSum :: real
  v_financingDeltaSum :: real
  v_termLoanInterest :: real
  v_termLoanPrincipal :: real
  v_loanOutstanding :: real
  v_otherInterest :: real
  v_wcInterestExisting :: real
  v_wcInterestProposed :: real
  v_totalInterest :: real
  v_wcLiabilityExisting :: real
  v_wcLiabilityProposed :: real
  v_totalCurrentLiabilities :: real
  v_totalTermLiabilities :: real
  v_totalLiabilities :: real
  v_totalNetWorth :: real
  v_isLlpOrProprietorship :: bool
  v_shareCapital :: real
  v_opProfit :: real
  v_pat :: real
  v_dividends :: real
  v_divTax :: real

subsection \<open>Investing and financing activities\<close>

record financing_out =
  fin_cashFromInvesting :: real
  fin_cashFromFinancing :: real
  fin_results :: results

definition investing_financing ::
  "group list \<Rightarrow> nat \<Rightarrow> year_results option \<Rightarrow> year_locals \<Rightarrow> results \<Rightarrow> financing_out" where
  "investing_financing allGroups yId prevYearResults l results =
     (let r = set_result results yId ''Net Cash from Operating Activities''
                (v_cashFromOperating l);
          purchaseFA =
            (case prevYearResults of
               Some p \<Rightarrow> (v_netBlock l - get_or p ''Net block'' 0) + v_depreciation l
             | None \<Rightarrow> v_grossBlock l);
          r = set_result r yId ''Less: Purchase/Addition of Fixed Assets'' (- purchaseFA);
          cashFromInvesting = - purchaseFA + v_investingDeltaSum l;
          r = set_result r yId ''Net Cash from Investment Activities'' cashFromInvesting;
          loanChange =
            v_loanOutstanding l
              - prev_get_or prevYearResults ''Term loans (excluding installments)'' 0;
          termLoanProceeds =
            (case prevYearResults of
               Some p \<Rightarrow> if loanChange > 0 then loanChange else 0
             | None \<Rightarrow> v_loanOutstanding l);
          termLoanRepayment =
            (case prevYearResults of
               Some p \<Rightarrow> if loanChange > 0 then 0 else - loanChange
             | None \<Rightarrow> 0);
          cashFromFinancing =
            (case prevYearResults of Some p \<Rightarrow> loanChange | None \<Rightarrow> v_loanOutstanding l);
          r = set_result r yId ''Add: Proceeds from Term Loans'' termLoanProceeds;
          r = set_result r yId ''Less: Repayment of Term Loans'' (- termLoanRepayment);
          otherTermLiabChange =
            (case prevYearResults of
               Some p \<Rightarrow>
                 (let prevOtherTL =
                        get_or p ''Total term liability'' (get_or p ''Total Term Liabilities'' 0)
                          - get_or p ''Term loans (excluding installments)'' 0;
                      currOtherTL = v_totalTermLiabilities l - v_loanOutstanding l
                  in currOtherTL - prevOtherTL)
             | None \<Rightarrow> v_totalTermLiabilities l - v_loanOutstanding l);
          r = set_result r yId ''Add/Less: Change in Other Term Liabilities''
                otherTermLiabChange;
          equityChange =
            (case prevYearResults of
               Some p \<Rightarrow>
                 if v_isLlpOrProprietorship l then 0
                 else
                   (let prevShareCap =
                          get_or p ''Ordinary share capital'' (get_or p ''Share Capital'' 0);
                        currShareCap =
                          js_or (getVal r allGroups yId ''Ordinary share capital'')
                            (js_or (getVal r allGroups yId ''Share Capital'') 0)
                    in currShareCap - prevShareCap)
             | None \<Rightarrow>
                 if \<not> v_isLlpOrProprietorship l
                 then js_or (getVal r allGroups yId ''Ordinary share capital'')
                        (js_or (getVal r allGroups yId ''Share Capital'') 0)
                 else js_or (getVal r allGroups yId ''Capital'') (js_or (v_shareCapital l) 0));
          r = set_result r yId ''Add/Less: Change in Share Capital'' equityChange;
          wcBorrowingChange =
            (case prevYearResults of
               Some p \<Rightarrow>
                 (v_wcLiabilityExisting l + v_wcLiabilityProposed l)
                   - (get_or p ''Existing Working Capital Limit'' 0
                        + get_or p ''Proposed Working Capital Limit'' 0)
             | None \<Rightarrow> v_wcLiabilityExisting l + v_wcLiabilityProposed l);
          cashFromFinancing = cashFromFinancing + wcBorrowingChange;
          r = set_result r yId ''Add/Less: Change in WC Borrowings'' wcBorrowingChange;
          drawingsOutflow =
            (if v_isLlpOrProprietorship l then js_or (getVal r allGroups yId ''Drawings'') 0
             else 0);
          cashFromFinancing = cashFromFinancing - drawingsOutflow;
          r = set_result r yId ''Less: Drawings'' (- drawingsOutflow);
          dividendPaid = v_dividends l + v_divTax l;
          cashFromFinancing = cashFromFinancing - dividendPaid;
          r = set_result r yId ''Less: Dividend Paid'' (- dividendPaid);
          totalInterestPaid = v_totalInterest l;
          cashFromFinancing = cashFromFinancing - totalInterestPaid;
          r = set_result r yId ''Less: Interest Paid'' (- totalInterestPaid);
          r = set_result r yId ''Less: Term Loan Interest Paid'' (- v_termLoanInterest l);
          r = set_result r yId ''Less: WC Interest Paid''
                (- (v_wcInterestExisting l + v_wcInterestProposed l));
          r = set_result r yId ''Less: Other Interest Paid'' (- v_otherInterest l);
          cashFromFinancing = cashFromFinancing + v_financingDeltaSum l;
          r = set_result r yId ''Net Cash from Financing Activities'' cashFromFinancing
      in \<lparr>fin_cashFromInvesting = cashFromInvesting,
          fin_cashFromFinancing = cashFromFinancing, fin_results = r\<rparr>)"

subsection \<open>Net cash flow, closing cash and total assets\<close>

text \<open>
  The opening cash of a year: for the first year the three cash rows are looked up in
  turn; later it is read from the previous year's map under three keys in turn.
\<close>

definition opening_cash ::
  "group list \<Rightarrow> nat \<Rightarrow> nat \<Rightarrow> year_results option \<Rightarrow> results \<Rightarrow> real" where
  "opening_cash allGroups yearIndex yId prevYearResults r =
     (if yearIndex = 0
      then js_or (getVal r allGroups yId ''Cash & Bank Balance'')
             (js_or (getVal r allGroups yId ''Cash in Hand'')
                (js_or (getVal r allGroups yId ''Balance with Banks'') 0))
      else
        (case prevYearResults of
           None \<Rightarrow> 0
         | Some p \<Rightarrow>
             get_or p ''Closing Cash Balance (as per CFS)''
               (get_or p ''Cash & Bank Balance'' (get_or p ''Total Cash & Bank'' 0))))"

definition non_current_assets :: "group list \<Rightarrow> nat \<Rightarrow> results \<Rightarrow> real" where
  "non_current_assets allGroups yId r =
     js_or (sumGroup allGroups yId ''Non-Current'' [])
       (js_or (sumGroup allGroups yId ''non_current'' [])
          (getVal r allGroups yId ''Long Term Investments''
             + getVal r allGroups yId ''Security Deposits (MSEB/Rent)''
             + getVal r allGroups yId ''Investment in Subsidy''
             + getVal r allGroups yId ''Loans & Advances (LT)''
             + getVal r allGroups yId ''Other Non-Current Assets''))"

record cash_out =
  c_netCashFlow :: real
  c_openingCash :: real
  c_closingCashCFS :: real
  c_totalCurrentAssets :: real
  c_nonCurrentAssets :: real
  c_totalAssets :: real
  c_results :: results

definition closing_cash_and_assets ::
  "group list \<Rightarrow> nat \<Rightarrow> nat \<Rightarrow> year_results option \<Rightarrow> year_locals \<Rightarrow> financing_out
     \<Rightarrow> cash_out" where
  "closing_cash_and_assets allGroups yearIndex yId prevYearResults l fin =
     (let r = fin_results fin;
          netCashFlow =
            v_cashFromOperating l + fin_cashFromInvesting fin + fin_cashFromFinancing fin;
          r = set_result r yId ''Net Cash Flow During the Year'' netCashFlow;
          openingCash = opening_cash allGroups yearIndex yId prevYearResults r;
          closingCashCFS = openingCash + netCashFlow;
          r = set_result r yId ''Add: Opening Cash Balance'' openingCash;
          r = set_result r yId ''Closing Cash Balance (as per CFS)'' closingCashCFS;
          r = set_result r yId ''Cash & Bank Balance'' closingCashCFS;
          r = set_result r yId ''Cash & bank balance'' closingCashCFS;
          r = set_result r yId ''Cash in Hand'' closingCashCFS;
          r = set_result r yId ''Balance with Banks'' 0;
          r = set_result r yId ''Total Cash & Bank'' closingCashCFS;
          totalCurrentAssets = v_nonCashCurrentAssets l + closingCashCFS;
          r = set_result r yId ''Total current asset'' totalCurrentAssets;
          r = set_result r yId ''Total Current Assets'' totalCurrentAssets;
          r = set_result r yId ''Total Operating Current Assets'' (v_nonCashCurrentAssets l);
          nonCurrentAssets = non_current_assets allGroups yId r;
          r = set_result r yId ''Total Non-Current Assets'' nonCurrentAssets;
          totalAssets = closingCashCFS + v_nonCashCurrentAssets l + v_totalFixedAssets l
                          + nonCurrentAssets;
          r = set_result r yId ''Total Asset'' totalAssets;
          r = set_result r yId ''Total Assets'' totalAssets
      in \<lparr>c_netCashFlow = netCashFlow, c_openingCash = openingCash,
          c_closingCashCFS = closingCashCFS, c_totalCurrentAssets = totalCurrentAssets,
          c_nonCurrentAssets = nonCurrentAssets, c_totalAssets = totalAssets,
          c_results = r\<rparr>)"

text \<open>The balance-sheet check and the reconciliation figures.\<close>

definition balance_sheet_check ::
  "nat \<Rightarrow> year_results option \<Rightarrow> year_locals \<Rightarrow> cash_out \<Rightarrow> results" where
  "balance_sheet_check yId prevYearResults l c =
     (let r = c_results c;
          balanceSheetCheck = c_totalAssets c - v_totalLiabilities l;
          r = set_result r yId ''Balance Sheet Check'' balanceSheetCheck;
          r = set_result r yId ''BALANCE SHEET CHECK (Assets - Liabilities)'' balanceSheetCheck;
          r = set_result r yId ''Cash & Bank Balance (as per Balance Sheet)''
                (c_closingCashCFS c);
          r = set_result r yId ''CFS Check Diff'' balanceSheetCheck;
          bsCashChange =
            c_closingCashCFS c
              - (case prevYearResults of
                   None \<Rightarrow> 0 | Some p \<Rightarrow> get_or p ''Closing Cash Balance (as per CFS)'' 0);
          netCashFlowFromCFS = get_or (r yId) ''Net Cash Flow During the Year'' 0;
          cfsReconciliationDiff = bsCashChange - netCashFlowFromCFS;
          r = set_result r yId ''_bsCashChange'' bsCashChange;
          r = set_result r yId ''_netCashFlowFromCFS'' netCashFlowFromCFS
      in set_result r yId ''_cfsReconciliationDiff'' cfsReconciliationDiff)"

subsection \<open>Key ratios\<close>

text \<open>
  A division of JavaScript numbers by \<open>0\<close> yields \<^verbatim>\<open>Infinity\<close>, \<^verbatim>\<open>-Infinity\<close> or
  \<^verbatim>\<open>NaN\<close>; with finite operands and a divisor other than \<open>0\<close> it yields the quotient.
  A ratio is therefore a \<open>real option\<close>, where \<open>None\<close> stands for a value that is not
  a finite number. The result maps of the model hold finite numbers only, so storing a
  ratio fails, with \<open>None\<close>, when the ratio is not finite. This is the view of the
  block on finite operands and exact quotients, as the cash flow statement needs it; an
  operand that is \<^verbatim>\<open>NaN\<close> or infinite and the overflow of a result are followed in
  the section on numbers with special values.
\<close>

definition js_divide :: "real \<Rightarrow> real \<Rightarrow> real option" where
  "js_divide a b = (if b = 0 then None else Some (a / b))"

definition times_100 :: "real option \<Rightarrow> real option" where
  "times_100 q = map_option (\<lambda>x. x * 100) q"

definition store_ratio :: "results \<Rightarrow> nat \<Rightarrow> string \<Rightarrow> real option \<Rightarrow> results option" where
  "store_ratio r yId k q = map_option (set_result r yId k) q"

text \<open>
  The gross profit ratio of the operating statement,
  \<^verbatim>\<open>totalRevenue ? (grossProfit / totalRevenue) * 100 : 0\<close>, stored under
  \<open>Gross Profit Ratio\<close> right after the gross profit.
\<close>

definition grossProfitRatio :: "real \<Rightarrow> cogs_state \<Rightarrow> real option" where
  "grossProfitRatio totalRevenue st =
     (if totalRevenue \<noteq> 0 then times_100 (js_divide (grossProfit totalRevenue st) totalRevenue)
      else Some 0)"

definition store_gross_profit_ratio ::
  "nat \<Rightarrow> real \<Rightarrow> cogs_state \<Rightarrow> results \<Rightarrow> results option" where
  "store_gross_profit_ratio yId totalRevenue st r =
     store_ratio r yId ''Gross Profit Ratio'' (grossProfitRatio totalRevenue st)"

text \<open>The ratios at the end of the year, each under the name of its variable.\<close>

definition debtEquityRatio :: "year_locals \<Rightarrow> real option" where
  "debtEquityRatio l =
     (let totalDebt = v_totalTermLiabilities l + v_totalCurrentLiabilities l in
      if v_totalNetWorth l \<noteq> 0 then js_divide totalDebt (v_totalNetWorth l) else Some 0)"

definition currentRatio :: "year_locals \<Rightarrow> real \<Rightarrow> real option" where
  "currentRatio l totalCurrentAssets =
     (if v_totalCurrentLiabilities l \<noteq> 0
      then js_divide totalCurrentAssets (v_totalCurrentLiabilities l) else Some 0)"

definition quickRatio :: "year_locals \<Rightarrow> real \<Rightarrow> real \<Rightarrow> real option" where
  "quickRatio l totalCurrentAssets inventory =
     (let quickAssets = totalCurrentAssets - inventory in
      if v_totalCurrentLiabilities l \<noteq> 0
      then js_divide quickAssets (v_totalCurrentLiabilities l) else Some 0)"

definition fixedAssetsCoverageRatio :: "year_locals \<Rightarrow> real option" where
  "fixedAssetsCoverageRatio l =
     (if v_totalFixedAssets l \<noteq> 0 then js_divide (v_totalNetWorth l) (v_totalFixedAssets l)
      else Some 0)"

definition interestCoverageRatio :: "year_locals \<Rightarrow> real option" where
  "interestCoverageRatio l =
     (if v_totalInterest l \<noteq> 0 then js_divide (v_opProfit l) (v_totalInterest l) else Some 0)"

definition dscr :: "year_locals \<Rightarrow> real option" where
  "dscr l =
     (if v_termLoanPrincipal l + v_termLoanInterest l \<noteq> 0
      then js_divide (v_pat l + v_depreciation l + v_termLoanInterest l)
             (v_termLoanPrincipal l + v_termLoanInterest l)
      else Some 0)"

definition roce :: "year_locals \<Rightarrow> real option" where
  "roce l =
     (let capitalEmployed = v_totalNetWorth l + v_totalTermLiabilities l in
      if capitalEmployed \<noteq> 0 then times_100 (js_divide (v_opProfit l) capitalEmployed)
      else Some 0)"

definition netProfitMargin :: "year_locals \<Rightarrow> real \<Rightarrow> real option" where
  "netProfitMargin l totalRevenue =
     (if totalRevenue \<noteq> 0 then times_100 (js_divide (v_pat l) totalRevenue) else Some 0)"

definition returnOnNetWorth :: "year_locals \<Rightarrow> real option" where
  "returnOnNetWorth l =
     (if v_totalNetWorth l \<noteq> 0 then times_100 (js_divide (v_pat l) (v_totalNetWorth l))
      else Some 0)"

definition avgInventory :: "nat \<Rightarrow> cogs_state \<Rightarrow> real" where
  "avgInventory yearIndex st =
     (if yearIndex > 0 then (openStockRM st + closeStockRM st) / 2 else closeStockRM st)"

definition inventoryTurnoverRatio :: "nat \<Rightarrow> cogs_state \<Rightarrow> real option" where
  "inventoryTurnoverRatio yearIndex st =
     (if avgInventory yearIndex st \<noteq> 0 then js_divide (cogs st) (avgInventory yearIndex st)
      else Some 0)"

definition fixedAssetTurnoverRatio :: "year_locals \<Rightarrow> real \<Rightarrow> real option" where
  "fixedAssetTurnoverRatio l totalRevenue =
     (if v_totalFixedAssets l \<noteq> 0 then js_divide totalRevenue (v_totalFixedAssets l)
      else Some 0)"

text \<open>
  The asset turnover reads its divisor back from the result map; an absent entry is
  \<^verbatim>\<open>undefined\<close>, which differs from \<open>0\<close> and makes the quotient \<^verbatim>\<open>NaN\<close>.
\<close>

definition assetTurnoverRatio :: "real \<Rightarrow> year_results \<Rightarrow> real option" where
  "assetTurnoverRatio totalRevenue m =
     (case m ''Total Asset'' of
        None \<Rightarrow> None
      | Some totalAsset \<Rightarrow>
          if totalAsset \<noteq> 0 then js_divide totalRevenue totalAsset else Some 0)"

text \<open>
  The stores of the ratio block in the order of the source. The debt-equity ratio is
  computed into a local variable and stored under no key.
\<close>

definition store_key_ratios ::
  "group list \<Rightarrow> nat \<Rightarrow> nat \<Rightarrow> year_locals \<Rightarrow> real \<Rightarrow> cogs_state \<Rightarrow> real \<Rightarrow> results
     \<Rightarrow> results option" where
  "store_key_ratios allGroups yearIndex yId l totalRevenue st totalCurrentAssets results =
     do {
       r \<leftarrow> store_ratio results yId ''Current ratio'' (currentRatio l totalCurrentAssets);
       let inventory = closeStockRM st + getVal r allGroups yId ''Stock in process''
                         + getVal r allGroups yId ''Finished goods'';
       r \<leftarrow> store_ratio r yId ''Quick ratio'' (quickRatio l totalCurrentAssets inventory);
       r \<leftarrow> store_ratio r yId ''Fixed Assets Coverage Ratio'' (fixedAssetsCoverageRatio l);
       r \<leftarrow> store_ratio r yId ''Interest coverage ratio'' (interestCoverageRatio l);
       r \<leftarrow> store_ratio r yId ''Debt Service Coverage Ratio (DSCR)'' (dscr l);
       r \<leftarrow> store_ratio r yId ''Return on Capital Employed (ROCE)'' (roce l);
       r \<leftarrow> store_ratio r yId ''Net profit margin'' (netProfitMargin l totalRevenue);
       r \<leftarrow> store_ratio r yId ''Return on Net worth'' (returnOnNetWorth l);
       r \<leftarrow> store_ratio r yId ''Inventory turnover ratio''
              (inventoryTurnoverRatio yearIndex st);
       r \<leftarrow> store_ratio r yId ''Fixed asset turnover ratio''
              (fixedAssetTurnoverRatio l totalRevenue);
       store_ratio r yId ''Asset turnover ratio'' (assetTurnoverRatio totalRevenue (r yId))
     }"

text \<open>
  The end of a year, from the store of the net cash from operating activities to the
  last ratio; the map it returns is the previous year's map of the year that follows.
\<close>

definition year_end ::
  "group list \<Rightarrow> nat \<Rightarrow> nat \<Rightarrow> year_results option \<Rightarrow> year_locals \<Rightarrow> real \<Rightarrow> cogs_state
     \<Rightarrow> results \<Rightarrow> results option" where
  "year_end allGroups yearIndex yId prevYearResults l totalRevenue st results =
     (let fin = investing_financing allGroups yId prevYearResults l results;
          c = closing_cash_and_assets allGroups yearIndex yId prevYearResults l fin;
          r = balance_sheet_check yId prevYearResults l c
      in store_key_ratios allGroups yearIndex yId l totalRevenue st (c_totalCurrentAssets c) r)"

text \<open>
  The three entries from which the opening cash of the next year is read all hold the
  closing cash \<open>c\<close>.
\<close>

definition cash_carried :: "year_results \<Rightarrow> real \<Rightarrow> bool" where
  "cash_carried m c =
     (m ''Closing Cash Balance (as per CFS)'' = Some c \<and> m ''Cash & Bank Balance'' = Some c
      \<and> m ''Total Cash & Bank'' = Some c)"

section \<open>The ratios over numbers with special values\<close>

text \<open>
  The ratio guards test a divisor against \<open>0\<close>; what they let through shows only on
  numbers that can be \<^verbatim>\<open>NaN\<close> or infinite. This section models the revenue loop, the
  gross profit ratio and the ratio block a second time over such numbers.
\<close>

subsection \<open>Numbers with special values\<close>

text \<open>
  A JavaScript number is a finite number, \<^verbatim>\<open>NaN\<close>, \<^verbatim>\<open>Infinity\<close> or \<^verbatim>\<open>-Infinity\<close>.
  Finite numbers are taken as exact reals: a finite result whose magnitude reaches
  \<open>2 ^ 1024\<close> overflows to an infinity, rounding below that bound and the sign of a
  zero are not modelled.
\<close>

datatype jsnum = Finite real | NaN | PosInfinity | NegInfinity

definition js_result :: "real \<Rightarrow> jsnum" where
  "js_result x =
     (if 2 ^ 1024 \<le> x then PosInfinity
      else if x \<le> - (2 ^ 1024) then NegInfinity
      else Finite x)"

definition js_infinity :: "bool \<Rightarrow> jsnum" where
  "js_infinity negative = (if negative then NegInfinity else PosInfinity)"

fun is_negative :: "jsnum \<Rightarrow> bool" where
  "is_negative (Finite a) = (a < 0)"
| "is_negative NegInfinity = True"
| "is_negative _ = False"

fun js_neg :: "jsnum \<Rightarrow> jsnum" where
  "js_neg (Finite a) = Finite (- a)"
| "js_neg NaN = NaN"
| "js_neg PosInfinity = NegInfinity"
| "js_neg NegInfinity = PosInfinity"

text \<open>
  \<^verbatim>\<open>x + y\<close>: \<^verbatim>\<open>NaN\<close> when an operand is \<^verbatim>\<open>NaN\<close> or the operands are infinities of
  opposite sign; an infinite operand otherwise wins.
\<close>

fun js_add :: "jsnum \<Rightarrow> jsnum \<Rightarrow> jsnum" where
  "js_add NaN y = NaN"
| "js_add x NaN = NaN"
| "js_add (Finite a) (Finite b) = js_result (a + b)"
| "js_add PosInfinity NegInfinity = NaN"
| "js_add NegInfinity PosInfinity = NaN"
| "js_add (Finite a) y = y"
| "js_add x y = x"

definition js_sub :: "jsnum \<Rightarrow> jsnum \<Rightarrow> jsnum" where
  "js_sub x y = js_add x (js_neg y)"

text \<open>
  \<^verbatim>\<open>x * y\<close>: \<^verbatim>\<open>NaN\<close> when an operand is \<^verbatim>\<open>NaN\<close> or an infinity meets \<open>0\<close>; an
  infinity with the sign of the product when an operand is infinite.
\<close>

fun js_mul :: "jsnum \<Rightarrow> jsnum \<Rightarrow> jsnum" where
  "js_mul NaN y = NaN"
| "js_mul x NaN = NaN"
| "js_mul (Finite a) (Finite b) = js_result (a * b)"
| "js_mul (Finite a) y =
     (if a = 0 then NaN else js_infinity (is_negative (Finite a) \<noteq> is_negative y))"
| "js_mul x (Finite b) =
     (if b = 0 then NaN else js_infinity (is_negative x \<noteq> is_negative (Finite b)))"
| "js_mul x y = js_infinity (is_negative x \<noteq> is_negative y)"

text \<open>
  \<^verbatim>\<open>x / y\<close>: \<^verbatim>\<open>NaN\<close> when an operand is \<^verbatim>\<open>NaN\<close>, for \<open>0 / 0\<close> and for an infinity
  over an infinity; an infinity when a number other than \<open>0\<close> is divided by \<open>0\<close> or an
  infinity by a finite number; \<open>0\<close> when a finite number is divided by an infinity.
\<close>

fun js_div :: "jsnum \<Rightarrow> jsnum \<Rightarrow> jsnum" where
  "js_div NaN y = NaN"
| "js_div x NaN = NaN"
| "js_div (Finite a) (Finite b) =
     (if b = 0 then (if a = 0 then NaN else js_infinity (a < 0)) else js_result (a / b))"
| "js_div (Finite a) y = Finite 0"
| "js_div x (Finite b) = js_infinity (is_negative x \<noteq> (b < 0))"
| "js_div x y = NaN"

text \<open>
  A number is truthy unless it is \<open>0\<close> or \<^verbatim>\<open>NaN\<close>. The test \<^verbatim>\<open>x !== 0\<close> is
  \<open>x \<noteq> Finite 0\<close>: it holds of \<^verbatim>\<open>NaN\<close> and of the infinities.
\<close>

definition js_truthy :: "jsnum \<Rightarrow> bool" where
  "js_truthy x = (x \<noteq> Finite 0 \<and> x \<noteq> NaN)"

subsection \<open>Revenue and gross profit over numbers with special values\<close>





text \<open>
  The variables that the ratios read, as they stand at the start of the ratio block:
  the locals of the year, the two values that \<^verbatim>\<open>getVal\<close> returns for
  \<open>Stock in process\<close> and \<open>Finished goods\<close>, and the cost of goods sold.
\<close>

record ratio_inputs =
  r_totalTermLiabilities :: jsnum
  r_totalCurrentLiabilities :: jsnum
  r_totalNetWorth :: jsnum
  r_totalCurrentAssets :: jsnum
  r_closeStockRM :: jsnum
  r_openStockRM :: jsnum
  r_stockInProcess :: jsnum
  r_finishedGoods :: jsnum
  r_totalFixedAssets :: jsnum
  r_opProfit :: jsnum
  r_totalInterest :: jsnum
  r_termLoanPrincipal :: jsnum
  r_termLoanInterest :: jsnum
  r_pat :: jsnum
  r_depreciation :: jsnum
  r_totalRevenue :: jsnum
  r_cogs :: jsnum

text \<open>
  The gross profit and its ratio, as the operating statement stores them:
  \<^verbatim>\<open>grossProfit = totalRevenue - cogs\<close> and
  \<^verbatim>\<open>totalRevenue ? (grossProfit / totalRevenue) * 100 : 0\<close>.
\<close>

definition grossProfit_js :: "ratio_inputs \<Rightarrow> jsnum" where
  "grossProfit_js i = js_sub (r_totalRevenue i) (r_cogs i)"

definition grossProfitRatio_js :: "ratio_inputs \<Rightarrow> jsnum" where
  "grossProfitRatio_js i =
     (if js_truthy (r_totalRevenue i)
      then js_mul (js_div (grossProfit_js i) (r_totalRevenue i)) (Finite 100)
      else Finite 0)"


subsection \<open>Key ratios over numbers with special values\<close>

definition totalDebt_js :: "ratio_inputs \<Rightarrow> jsnum" where
  "totalDebt_js i = js_add (r_totalTermLiabilities i) (r_totalCurrentLiabilities i)"

definition debtEquityRatio_js :: "ratio_inputs \<Rightarrow> jsnum" where
  "debtEquityRatio_js i =
     (if r_totalNetWorth i \<noteq> Finite 0 then js_div (totalDebt_js i) (r_totalNetWorth i)
      else Finite 0)"

definition currentRatio_js :: "ratio_inputs \<Rightarrow> jsnum" where
  "currentRatio_js i =
     (if r_totalCurrentLiabilities i \<noteq> Finite 0
      then js_div (r_totalCurrentAssets i) (r_totalCurrentLiabilities i) else Finite 0)"

definition inventory_js :: "ratio_inputs \<Rightarrow> jsnum" where
  "inventory_js i = js_add (js_add (r_closeStockRM i) (r_stockInProcess i)) (r_finishedGoods i)"

definition quickAssets_js :: "ratio_inputs \<Rightarrow> jsnum" where
  "quickAssets_js i = js_sub (r_totalCurrentAssets i) (inventory_js i)"

definition quickRatio_js :: "ratio_inputs \<Rightarrow> jsnum" where
  "quickRatio_js i =
     (if r_totalCurrentLiabilities i \<noteq> Finite 0
      then js_div (quickAssets_js i) (r_totalCurrentLiabilities i) else Finite 0)"

definition fixedAssetsCoverageRatio_js :: "ratio_inputs \<Rightarrow> jsnum" where
  "fixedAssetsCoverageRatio_js i =
     (if r_totalFixedAssets i \<noteq> Finite 0
      then js_div (r_totalNetWorth i) (r_totalFixedAssets i) else Finite 0)"

definition interestCoverageRatio_js :: "ratio_inputs \<Rightarrow> jsnum" where
  "interestCoverageRatio_js i =
     (if r_totalInterest i \<noteq> Finite 0 then js_div (r_opProfit i) (r_totalInterest i)
      else Finite 0)"




definition netProfitMargin_js :: "ratio_inputs \<Rightarrow> jsnum" where
  "netProfitMargin_js i =
     (if r_totalRevenue i \<noteq> Finite 0
      then js_mul (js_div (r_pat i) (r_totalRevenue i)) (Finite 100) else Finite 0)"

definition returnOnNetWorth_js :: "ratio_inputs \<Rightarrow> jsnum" where
  "returnOnNetWorth_js i =
     (if r_totalNetWorth i \<noteq> Finite 0
      then js_mul (js_div (r_pat i) (r_totalNetWorth i)) (Finite 100) else Finite 0)"



definition fixedAssetTurnoverRatio_js :: "ratio_inputs \<Rightarrow> jsnum" where
  "fixedAssetTurnoverRatio_js i =
     (if r_totalFixedAssets i \<noteq> Finite 0
      then js_div (r_totalRevenue i) (r_totalFixedAssets i) else Finite 0)"





section \<open>A sample report\<close>

text \<open>
  Two operating groups of a small report with the years 1 and 2, used to run the model
  on concrete data.
\<close>

definition sample_cogs_group :: group where
  "sample_cogs_group =
     \<lparr>group_name = ''Cost of Goods Sold'', page_type = ''operating'',
      group_system_tag = None, cf_bucket = None, nature = None,
      rows =
        [\<lparr>row_name = ''Opening Stock (Raw Materials)'', is_hidden = False,
          is_calculated = False, is_total_row = False, row_system_tag = None,
          row_data = [\<lparr>year_setting = 1, dp_value = 1000\<rparr>,
                      \<lparr>year_setting = 2, dp_value = 5000\<rparr>]\<rparr>,
         \<lparr>row_name = ''Purchases of Raw Materials'', is_hidden = False,
          is_calculated = False, is_total_row = False, row_system_tag = None,
          row_data = [\<lparr>year_setting = 1, dp_value = 20000\<rparr>,
                      \<lparr>year_setting = 2, dp_value = 24000\<rparr>]\<rparr>,
         \<lparr>row_name = ''Closing Stock (Raw Materials)'', is_hidden = False,
          is_calculated = False, is_total_row = False, row_system_tag = None,
          row_data = [\<lparr>year_setting = 1, dp_value = 3000\<rparr>,
                      \<lparr>year_setting = 2, dp_value = 4000\<rparr>]\<rparr>,
         \<lparr>row_name = ''Factory Wages'', is_hidden = False,
          is_calculated = False, is_total_row = False, row_system_tag = None,
          row_data = [\<lparr>year_setting = 1, dp_value = 6000\<rparr>,
                      \<lparr>year_setting = 2, dp_value = 6500\<rparr>]\<rparr>]\<rparr>"

definition sample_revenue_group :: group where
  "sample_revenue_group =
     \<lparr>group_name = ''Revenue'', page_type = ''operating'',
      group_system_tag = None, cf_bucket = None, nature = None,
      rows =
        [\<lparr>row_name = ''Domestic Sales'', is_hidden = False,
          is_calculated = False, is_total_row = False, row_system_tag = None,
          row_data = [\<lparr>year_setting = 1, dp_value = 40000\<rparr>,
                      \<lparr>year_setting = 2, dp_value = 50000\<rparr>]\<rparr>]\<rparr>"

definition sample_selling_group :: group where
  "sample_selling_group =
     \<lparr>group_name = ''Selling, General and Admn. Expenses'', page_type = ''operating'',
      group_system_tag = None, cf_bucket = None, nature = None,
      rows =
        [\<lparr>row_name = ''Salaries'', is_hidden = False,
          is_calculated = False, is_total_row = False, row_system_tag = None,
          row_data = [\<lparr>year_setting = 1, dp_value = 300\<rparr>]\<rparr>,
         \<lparr>row_name = ''Depreciation'', is_hidden = False,
          is_calculated = False, is_total_row = False, row_system_tag = None,
          row_data = [\<lparr>year_setting = 1, dp_value = 70\<rparr>]\<rparr>]\<rparr>"

definition sample_other_selling_group :: group where
  "sample_other_selling_group =
     \<lparr>group_name = ''Other selling costs'', page_type = ''operating'',
      group_system_tag = None, cf_bucket = None, nature = None,
      rows =
        [\<lparr>row_name = ''Commission'', is_hidden = False,
          is_calculated = False, is_total_row = False, row_system_tag = None,
          row_data = [\<lparr>year_setting = 1, dp_value = 40\<rparr>]\<rparr>]\<rparr>"

text \<open>
  Target gross-profit settings, the entries of year 1 that year 2 reads, and four year
  settings that are not in chronological order.
\<close>

definition sample_gpr :: gpr_settings where
  "sample_gpr = \<lparr>enabled = True, firstYearIncrement = 2, subsequentIncrement = 1\<rparr>"

definition sample_prev :: year_results where
  "sample_prev = [''Closing Stock (Raw Materials)'' \<mapsto> 3000, ''_actual_gpr'' \<mapsto> 40]"

definition unsorted_years :: "year_setting_rec list" where
  "unsorted_years =
     [\<lparr>ys_id = 2, ys_year = ''2026-2027''\<rparr>,
      \<lparr>ys_id = 1, ys_year = ''2025-2026''\<rparr>,
      \<lparr>ys_id = 4, ys_year = ''2028-2029''\<rparr>,
      \<lparr>ys_id = 3, ys_year = ''2027-2028''\<rparr>]"

text \<open>A fixed-asset group, an asset register and two year settings in order.\<close>

definition sample_fixed_group :: group where
  "sample_fixed_group =
     \<lparr>group_name = ''Fixed Assets'', page_type = ''asset'',
      group_system_tag = Some ''fixed_assets'', cf_bucket = Some ''investing'',
      nature = Some ''asset'',
      rows =
        [\<lparr>row_name = ''Gross Block'', is_hidden = False,
          is_calculated = True, is_total_row = False, row_system_tag = Some ''gross_block'',
          row_data = [\<lparr>year_setting = 1, dp_value = 90000\<rparr>]\<rparr>,
         \<lparr>row_name = ''Net Block'', is_hidden = False,
          is_calculated = True, is_total_row = False, row_system_tag = Some ''net_block'',
          row_data = []\<rparr>]\<rparr>"

definition sample_assets :: "asset list" where
  "sample_assets =
     [\<lparr>is_existing_asset = True, start_date = None, purchase_year = Some 1,
       start_year = None, amount = 90000\<rparr>,
      \<lparr>is_existing_asset = False, start_date = None, purchase_year = Some 2,
       start_year = None, amount = 20000\<rparr>,
      \<lparr>is_existing_asset = False, start_date = Some ''2027-2028'', purchase_year = None,
       start_year = None, amount = 7000\<rparr>]"

definition sample_years :: "year_setting_rec list" where
  "sample_years =
     [\<lparr>ys_id = 1, ys_year = ''2025-2026''\<rparr>, \<lparr>ys_id = 2, ys_year = ''2026-2027''\<rparr>]"



text \<open>
  The local variables of a year without any activity and of a year with cash flows, the
  cash entries that a previous year left behind, and a group with a cash row.
\<close>

definition idle_locals :: year_locals where
  "idle_locals =
     \<lparr>v_cashFromOperating = 0, v_depreciation = 0, v_grossBlock = 0, v_netBlock = 0,
      v_totalFixedAssets = 0, v_nonCashCurrentAssets = 0, v_investingDeltaSum = 0,
      v_financingDeltaSum = 0, v_termLoanInterest = 0, v_termLoanPrincipal = 0,
      v_loanOutstanding = 0, v_otherInterest = 0, v_wcInterestExisting = 0,
      v_wcInterestProposed = 0, v_totalInterest = 0, v_wcLiabilityExisting = 0,
      v_wcLiabilityProposed = 0, v_totalCurrentLiabilities = 0, v_totalTermLiabilities = 0,
      v_totalLiabilities = 0, v_totalNetWorth = 0, v_isLlpOrProprietorship = False,
      v_shareCapital = 0, v_opProfit = 0, v_pat = 0, v_dividends = 0, v_divTax = 0\<rparr>"

definition sample_prev_cash :: year_results where
  "sample_prev_cash =
     [''Closing Cash Balance (as per CFS)'' \<mapsto> 4000, ''Cash & Bank Balance'' \<mapsto> 4000,
      ''Total Cash & Bank'' \<mapsto> 4000, ''Net block'' \<mapsto> 81000]"

definition sample_cash_group :: group where
  "sample_cash_group =
     \<lparr>group_name = ''Current Assets'', page_type = ''asset'',
      group_system_tag = Some ''current_assets'', cf_bucket = Some ''operating'',
      nature = Some ''asset'',
      rows =
        [\<lparr>row_name = ''Cash in Hand'', is_hidden = False,
          is_calculated = False, is_total_row = False, row_system_tag = Some ''cash_bank'',
          row_data = [\<lparr>year_setting = 1, dp_value = 2500\<rparr>]\<rparr>]\<rparr>"

definition sample_cash_locals :: year_locals where
  "sample_cash_locals =
     idle_locals\<lparr>v_cashFromOperating := 29000, v_depreciation := 15150, v_grossBlock := 101000,
       v_netBlock := 85850, v_totalFixedAssets := 85850, v_nonCashCurrentAssets := 12000,
       v_investingDeltaSum := - 500, v_financingDeltaSum := 2500, v_totalInterest := 1200,
       v_otherInterest := 1200, v_dividends := 300\<rparr>"










section \<open>Properties of the tax calculator\<close>

lemma slab_mono:
  "lo \<le> hi \<Longrightarrow> 0 \<le> rate \<Longrightarrow> p \<le> q \<Longrightarrow> slab lo hi rate p \<le> slab lo hi rate q"
  unfolding slab_def by (auto simp: min_def intro!: mult_right_mono mult_nonneg_nonneg)

lemma slab_nonneg: "lo \<le> hi \<Longrightarrow> 0 \<le> rate \<Longrightarrow> 0 \<le> slab lo hi rate p"
  unfolding slab_def by (auto simp: min_def intro!: mult_nonneg_nonneg)

lemma top_slab_mono: "p \<le> q \<Longrightarrow> top_slab p \<le> top_slab q"
  unfolding top_slab_def by auto

lemma top_slab_nonneg: "0 \<le> top_slab p"
  unfolding top_slab_def by auto

lemma slab_total_mono: "p \<le> q \<Longrightarrow> slab_total p \<le> slab_total q"
  unfolding slab_total_def
  by (intro add_mono slab_mono top_slab_mono) simp_all

lemma slab_total_nonneg: "0 \<le> slab_total p"
  unfolding slab_total_def
  by (intro add_nonneg_nonneg slab_nonneg top_slab_nonneg) simp_all

lemma tax_proprietorship:
  "tax (calculateTax p ''proprietorship'') = (if p \<le> 700000 then 0 else slab_total p)"
  by (simp add: calculateTax_def Let_def slab_total_def slab_def top_slab_def)

text \<open>
  Claim C5. In the progressive regime (\<^verbatim>\<open>'proprietorship'\<close>) the tax is non-decreasing
  in the profit, it is \<open>0\<close> for every profit up to 700000, and surcharge and cess are
  \<open>0\<close> for every profit.
\<close>

theorem progressive_tax_monotone_rebate:
  "(p \<le> q \<longrightarrow>
      tax (calculateTax p ''proprietorship'') \<le> tax (calculateTax q ''proprietorship''))
   \<and> (p \<le> 700000 \<longrightarrow> tax (calculateTax p ''proprietorship'') = 0)
   \<and> surcharge (calculateTax p ''proprietorship'') = 0
   \<and> cess (calculateTax p ''proprietorship'') = 0"
proof (intro conjI impI)
  assume "p \<le> q"
  then show "tax (calculateTax p ''proprietorship'') \<le> tax (calculateTax q ''proprietorship'')"
    using slab_total_mono [of p q] slab_total_nonneg [of q]
    by (simp add: tax_proprietorship)
next
  assume "p \<le> 700000"
  then show "tax (calculateTax p ''proprietorship'') = 0"
    by (simp add: tax_proprietorship)
next
  show "surcharge (calculateTax p ''proprietorship'') = 0"
    by (simp add: calculateTax_def Let_def)
next
  show "cess (calculateTax p ''proprietorship'') = 0"
    by (simp add: calculateTax_def Let_def)
qed

theorem progressive_tax_monotone_rebate_witness:
  "(650000::real) \<le> 1600000 \<and> (650000::real) \<le> 700000
   \<and> tax (calculateTax 650000 ''proprietorship'') = 0
   \<and> tax (calculateTax 650000 ''proprietorship'') \<le> tax (calculateTax 1600000 ''proprietorship'')
   \<and> tax (calculateTax 1600000 ''proprietorship'') = 170000
   \<and> surcharge (calculateTax 650000 ''proprietorship'') = 0
   \<and> cess (calculateTax 650000 ''proprietorship'') = 0"
  using progressive_tax_monotone_rebate [of 650000 1600000]
  by (simp add: tax_proprietorship slab_total_def slab_def top_slab_def)

text \<open>
  Claim C6. For every regime and every profit that is zero or negative the calculator
  returns tax, surcharge, cess and total all equal to \<open>0\<close>.
\<close>

theorem calculateTax_nonpositive_profit:
  "pbt \<le> 0 \<Longrightarrow> calculateTax pbt regime = \<lparr>tax = 0, surcharge = 0, cess = 0, total = 0\<rparr>"
  by (simp add: calculateTax_def)

theorem calculateTax_nonpositive_profit_witness:
  "(- 2500::real) \<le> 0
   \<and> calculateTax (- 2500) ''llp'' = \<lparr>tax = 0, surcharge = 0, cess = 0, total = 0\<rparr>"
  using calculateTax_nonpositive_profit [of "- 2500" "''llp''"] by simp

text \<open>
  Claim C7 says that a regime the calculator does not recognize gives the same result as
  the default regime (\<^verbatim>\<open>'domestic_22'\<close>, the value every caller substitutes for a
  missing regime). The preview page offers the regime \<^verbatim>\<open>'old_regime'\<close>, labelled
  \<open>Domestic Company (Old Regime) - 25%\<close>, and passes it on unchanged; the calculator
  has no branch for it. At a profit of 1000000 it charges no tax at all, where the
  default regime charges a total of 251680.
\<close>

theorem old_regime_charges_no_tax:
  "calculateTax 1000000 ''old_regime'' = \<lparr>tax = 0, surcharge = 0, cess = 0, total = 0\<rparr>
   \<and> calculateTax 1000000 ''domestic_22'' =
       \<lparr>tax = 220000, surcharge = 22000, cess = 9680, total = 251680\<rparr>
   \<and> calculateTax 1000000 ''old_regime'' \<noteq> calculateTax 1000000 ''domestic_22''"
  by (simp add: calculateTax_def)

section \<open>Properties of the classification resolver\<close>






lemma foldl_sumGroup_row_acc:
  "foldl (sumGroup_row y ex) a rs =
     a + (\<Sum>r\<leftarrow>filter (row_counted ex) rs. dp_val r y)"
  by (induction rs arbitrary: a) (auto simp: sumGroup_row_def row_counted_def)

lemma find_first_match:
  "\<not> list_ex P pre \<Longrightarrow> P g \<Longrightarrow> find P (pre @ g # post) = Some g"
  by (induction pre) auto

text \<open>
  Claim C10. The sum of a group is taken over the rows of the first group, in the input
  order, whose name contains the fragment without regard to case or whose system tag
  contains the fragment with white space turned into underscores; the rows of later
  groups, matching or not, contribute nothing.
\<close>

theorem sumGroup_first_matching_group_only:
  assumes "\<not> list_ex (group_matches groupNamePart) pre"
    and "group_matches groupNamePart g"
  shows "sumGroup (pre @ g # post) yearId groupNamePart excludeNames =
           (\<Sum>r\<leftarrow>filter (row_counted excludeNames) (rows g). dp_val r yearId)"
  using find_first_match [OF assms, of post]
  by (simp add: sumGroup_def foldl_sumGroup_row_acc)


section \<open>Properties of the operating statement\<close>

lemma set_result_apply:
  "set_result r y k v y' k' = (if y' = y \<and> k' = k then Some v else r y' k')"
  by (simp add: set_result_def)

lemma category_OpeningRM:
  "cogs_category_of name = OpeningRM \<longleftrightarrow>
     js_includes name ''opening'' \<and> js_includes name ''stock'' \<and> js_includes name ''raw''"
proof (cases "js_includes name ''opening'' \<and> js_includes name ''stock'' \<and> js_includes name ''raw''")
  case True
  then show ?thesis by (simp add: cogs_category_of_def)
next
  case False
  then have "cogs_category_of name \<noteq> OpeningRM"
    unfolding cogs_category_of_def by (simp only: if_False) (simp split: if_split)
  with False show ?thesis by simp
qed

lemma cogs_row_results:
  "cogs_results (cogs_row yearIndex yId prev st row) y k =
     (if opening_rm_row row \<and> y = yId \<and> (k = row_name row \<or> k = ''Opening Stock (Raw Materials)'')
      then Some (openStockRM (cogs_row yearIndex yId prev st row))
      else cogs_results st y k)"
  by (cases "cogs_category_of (toLowerCase (row_name row))")
     (simp_all add: cogs_row_def opening_rm_row_def Let_def set_result_apply
        category_OpeningRM [symmetric])

lemma cogs_row_opening:
  "openStockRM (cogs_row yearIndex yId prev st row) =
     (if opening_rm_row row then
        (case cogs_results st yId ''_forced_opening_stock_rm'' of
           Some forced \<Rightarrow> forced
         | None \<Rightarrow> if yearIndex > 0
                   then prev_get_or prev ''Closing Stock (Raw Materials)'' (dp_val row yId)
                   else dp_val row yId)
      else openStockRM st)"
  by (cases "cogs_category_of (toLowerCase (row_name row))")
     (simp_all add: cogs_row_def opening_rm_row_def Let_def category_OpeningRM [symmetric])

lemma forced_key_not_raw:
  "\<not> js_includes (toLowerCase ''_forced_opening_stock_rm'') ''raw''"
  by code_simp

lemma cogs_row_forced:
  "cogs_results (cogs_row yearIndex yId prev st row) yId ''_forced_opening_stock_rm'' =
     cogs_results st yId ''_forced_opening_stock_rm''"
proof -
  have "row_name row \<noteq> ''_forced_opening_stock_rm''" if "opening_rm_row row"
    using that forced_key_not_raw by (auto simp: opening_rm_row_def)
  then show ?thesis by (auto simp: cogs_row_results)
qed

lemma cogs_rows_forced:
  "cogs_results (foldl (cogs_row yearIndex yId prev) st rs) yId ''_forced_opening_stock_rm'' =
     cogs_results st yId ''_forced_opening_stock_rm''"
  by (induction rs arbitrary: st) (simp_all add: cogs_row_forced)

lemma cogs_rows_other_year:
  "y \<noteq> yId \<Longrightarrow>
     cogs_results (foldl (cogs_row yearIndex yId prev) st rs) y k = cogs_results st y k"
  by (induction rs arbitrary: st) (simp_all add: cogs_row_results)

lemma cogs_rows_opening:
  "openStockRM (foldl (cogs_row yearIndex yId prev) st rs) =
     (case find opening_rm_row (rev rs) of
        None \<Rightarrow> openStockRM st
      | Some row \<Rightarrow>
          (case cogs_results st yId ''_forced_opening_stock_rm'' of
             Some forced \<Rightarrow> forced
           | None \<Rightarrow>
               if yearIndex > 0
               then prev_get_or prev ''Closing Stock (Raw Materials)'' (dp_val row yId)
               else dp_val row yId))"
proof (induction rs rule: rev_induct)
  case Nil
  show ?case by simp
next
  case (snoc row rs)
  then show ?case
    by (simp add: cogs_row_opening cogs_rows_forced)
qed

lemma cogs_loop_opening:
  assumes "find is_cogs_group allGroups = Some cogsGroup"
    and "find opening_rm_row (rev (rows cogsGroup)) = Some row"
  shows "openStockRM (cogs_loop allGroups yearIndex yId prev results) =
           (case results yId ''_forced_opening_stock_rm'' of
              Some forced \<Rightarrow> forced
            | None \<Rightarrow>
                if yearIndex > 0
                then prev_get_or prev ''Closing Stock (Raw Materials)'' (dp_val row yId)
                else dp_val row yId)"
  using assms cogs_rows_opening [of yearIndex yId prev "cogs_init results" "rows cogsGroup"]
  by (simp add: cogs_loop_def cogs_init_def)

lemma sample_cogs_found:
  "find is_cogs_group [sample_revenue_group, sample_cogs_group] = Some sample_cogs_group"
  by code_simp

lemma sample_opening_row:
  "find opening_rm_row (rev (rows sample_cogs_group)) = Some (hd (rows sample_cogs_group))"
  by code_simp

lemma sample_opening_input: "dp_val (hd (rows sample_cogs_group)) 2 = 5000"
  by (simp add: sample_cogs_group_def dp_val_def)

text \<open>
  The closing stock of raw materials that a year has computed is what the year stores
  under \<open>Closing Stock (Raw Materials)\<close>, the entry that the next year reads.
\<close>

lemma current_assets_block_closing_stock:
  "ca_results (current_assets_block allGroups yId st results) yId
     ''Closing Stock (Raw Materials)'' = Some (closeStockRM st)"
  by (simp add: current_assets_block_def Let_def set_result_apply)

text \<open>
  Claim C1 says that after the first year the opening stock of raw materials is always
  the previous year's closing stock and that the row's own input is ignored. The code
  reads \<^verbatim>\<open>prevYearResults?.["Closing Stock (Raw Materials)"] || value\<close>: when the
  previous closing stock is \<open>0\<close> the input of the row is used. In the sample report,
  with a previous closing stock of \<open>0\<close> and an input of 5000 for year 2, the engine
  opens year 2 with 5000.
\<close>

theorem opening_stock_carry_counterexample:
  "(0::nat) < 1
   \<and> empty_results 2 ''_forced_opening_stock_rm'' = None
   \<and> find is_cogs_group [sample_revenue_group, sample_cogs_group] = Some sample_cogs_group
   \<and> list_ex opening_rm_row (rows sample_cogs_group)
   \<and> [''Closing Stock (Raw Materials)'' \<mapsto> 0] ''Closing Stock (Raw Materials)''
       = Some (0::real)
   \<and> openStockRM (cogs_loop [sample_revenue_group, sample_cogs_group] 1 2
        (Some [''Closing Stock (Raw Materials)'' \<mapsto> 0]) empty_results) = 5000"
proof -
  have "list_ex opening_rm_row (rows sample_cogs_group)"
    by code_simp
  moreover have "openStockRM (cogs_loop [sample_revenue_group, sample_cogs_group] 1 2
        (Some [''Closing Stock (Raw Materials)'' \<mapsto> 0]) empty_results) = 5000"
    using cogs_loop_opening [OF sample_cogs_found sample_opening_row,
       of 1 2 "Some [''Closing Stock (Raw Materials)'' \<mapsto> 0]" empty_results]
    by (simp add: sample_opening_input prev_get_or_def get_or_def js_or_def
        empty_results_def)
  ultimately show ?thesis using sample_cogs_found by (simp add: empty_results_def)
qed

text \<open>
  Claim C1, amended. For every year after the first, without a forced opening stock in
  the year's result map, when the COGS group has a row that is not hidden, calculated or
  a total, whose name does not start with \<open>=\<close> and names an opening stock of raw
  materials, the opening stock used for the year is the previous year's entry
  \<open>Closing Stock (Raw Materials)\<close> if that entry is not \<open>0\<close>; if it is \<open>0\<close> (or
  absent) the input of the last such row for the year is used.
\<close>

theorem opening_stock_carry_or_input:
  assumes "yearIndex > 0"
    and "results yId ''_forced_opening_stock_rm'' = None"
    and "find is_cogs_group allGroups = Some cogsGroup"
    and "find opening_rm_row (rev (rows cogsGroup)) = Some row"
  shows "openStockRM (cogs_loop allGroups yearIndex yId (Some prev) results) =
           (case prev ''Closing Stock (Raw Materials)'' of
              Some closing \<Rightarrow> if closing \<noteq> 0 then closing else dp_val row yId
            | None \<Rightarrow> dp_val row yId)"
  using assms(1,2)
    cogs_loop_opening [OF assms(3,4), of yearIndex yId "Some prev" results]
  by (simp add: prev_get_or_def get_or_def js_or_def split: option.splits)

theorem opening_stock_carry_or_input_witness:
  "(0::nat) < 1 \<and> empty_results 2 ''_forced_opening_stock_rm'' = None
   \<and> find is_cogs_group [sample_revenue_group, sample_cogs_group] = Some sample_cogs_group
   \<and> find opening_rm_row (rev (rows sample_cogs_group)) = Some (hd (rows sample_cogs_group))
   \<and> openStockRM (cogs_loop [sample_revenue_group, sample_cogs_group] 1 2
        (Some [''Closing Stock (Raw Materials)'' \<mapsto> 3000]) empty_results) = 3000"
  using opening_stock_carry_or_input [OF _ _ sample_cogs_found sample_opening_row,
       of 1 empty_results 2 "[''Closing Stock (Raw Materials)'' \<mapsto> 3000]"]
    sample_cogs_found sample_opening_row
  by (simp add: empty_results_def)

section \<open>The group sum on the sample report\<close>

lemma sample_revenue_not_selling:
  "\<not> list_ex (group_matches ''Selling'') [sample_revenue_group]"
  by code_simp

lemma sample_selling_matches: "group_matches ''Selling'' sample_selling_group"
  by code_simp

lemma sample_other_selling_matches: "group_matches ''Selling'' sample_other_selling_group"
  by code_simp

lemma sample_selling_counted:
  "filter (row_counted [''Depreciation'', ''Interest'']) (rows sample_selling_group) =
     [hd (rows sample_selling_group)]"
  by code_simp

lemma sample_salaries: "dp_val (hd (rows sample_selling_group)) 1 = 300"
  by (simp add: sample_selling_group_def dp_val_def)

theorem sumGroup_first_matching_group_only_witness:
  "\<not> list_ex (group_matches ''Selling'') [sample_revenue_group]
   \<and> group_matches ''Selling'' sample_selling_group
   \<and> group_matches ''Selling'' sample_other_selling_group
   \<and> sumGroup ([sample_revenue_group] @ sample_selling_group # [sample_other_selling_group])
        1 ''Selling'' [''Depreciation'', ''Interest''] = 300"
  using sumGroup_first_matching_group_only
    [OF sample_revenue_not_selling sample_selling_matches,
     of "[sample_other_selling_group]" 1 "[''Depreciation'', ''Interest'']"]
  by (simp only: sample_revenue_not_selling sample_selling_matches
      sample_other_selling_matches sample_selling_counted sample_salaries
      list.map sum_list.Cons sum_list.Nil add_0_right simp_thms)


section \<open>Properties of the target gross-profit block\<close>

lemma gpr_logic_results:
  assumes "gpr_enabled gprSettings" and "0 < totalRevenue" and "0 < yearIndex"
  shows "cogs_results (gpr_logic gprSettings yearSettings yearIndex yId prev totalRevenue st) y k =
     (if yearIndex + 1 < length yearSettings \<and> y = ys_id (yearSettings ! (yearIndex + 1))
         \<and> k = ''_forced_opening_stock_rm''
      then Some (closeStockRM (gpr_logic gprSettings yearSettings yearIndex yId prev totalRevenue st))
      else if y = yId \<and> k = ''Closing Stock''
              \<and> truthy_entry (cogs_results st yId) ''Closing Stock''
      then Some (closeStockRM (gpr_logic gprSettings yearSettings yearIndex yId prev totalRevenue st))
      else if y = yId \<and> k = ''Closing Stock (Raw Materials)''
      then Some (closeStockRM (gpr_logic gprSettings yearSettings yearIndex yId prev totalRevenue st))
      else if y = yId \<and> k = ''_actual_gpr''
      then Some (prev_get_or prev ''_actual_gpr'' 0 + gpr_increment gprSettings yearIndex)
      else cogs_results st y k)"
  using assms
  by (simp add: gpr_logic_def Let_def set_result_apply truthy_entry_def)

lemma gpr_logic_closing:
  assumes "gpr_enabled gprSettings" and "0 < totalRevenue" and "0 < yearIndex"
  shows "closeStockRM (gpr_logic gprSettings yearSettings yearIndex yId prev totalRevenue st) =
     (openStockRM st + purchasesRM st + otherRMCosts st) + manufacturingExpenses st
       + (openWIP st - closeWIP st) + (openFG st - closeFG st)
       - (totalRevenue - totalRevenue
            * ((prev_get_or prev ''_actual_gpr'' 0 + gpr_increment gprSettings yearIndex) / 100))"
  using assms by (simp add: gpr_logic_def Let_def)

lemma gpr_logic_gross_profit:
  assumes "gpr_enabled gprSettings" and "0 < totalRevenue" and "0 < yearIndex"
  shows "grossProfit totalRevenue
           (gpr_logic gprSettings yearSettings yearIndex yId prev totalRevenue st) =
         totalRevenue * ((prev_get_or prev ''_actual_gpr'' 0
                            + gpr_increment gprSettings yearIndex) / 100)"
  using assms
  by (simp add: gpr_logic_def Let_def grossProfit_def cogs_def factoryCostProduced_def
      grossFactoryCost_def rmConsumed_def)

lemma write_gross_profit_entry:
  "write_gross_profit yId totalRevenue st yId ''Gross Profit'' = Some (grossProfit totalRevenue st)"
  by (simp add: write_gross_profit_def Let_def set_result_apply)

lemma write_gross_profit_forced:
  "write_gross_profit yId totalRevenue st y ''_forced_opening_stock_rm'' =
     cogs_results st y ''_forced_opening_stock_rm''"
  by (simp add: write_gross_profit_def Let_def set_result_apply)

text \<open>
  With the target mode on, in a year after the first with positive revenue, the gross
  profit entry is the revenue times the target margin over 100, the target margin is the
  margin stored by the previous year plus the increment, and the solved closing stock is
  stored as forced opening stock in the map of the year setting at position
  \<open>yearIndex + 1\<close> of the list as it was passed in.
\<close>

lemma gross_profit_block_target:
  assumes "gpr_enabled gprSettings" and "0 < yearIndex"
    and "0 < total_revenue allGroups yId"
  shows "gp_results (gross_profit_block allGroups yearSettings gprSettings yearIndex yId
             prev results) yId ''Gross Profit'' =
           Some (total_revenue allGroups yId
                  * ((prev_get_or prev ''_actual_gpr'' 0
                        + gpr_increment gprSettings yearIndex) / 100))"
    and "yearIndex + 1 < length yearSettings \<Longrightarrow>
         gp_results (gross_profit_block allGroups yearSettings gprSettings yearIndex yId
             prev results) (ys_id (yearSettings ! (yearIndex + 1))) ''_forced_opening_stock_rm'' =
           Some (closeStockRM (gp_state (gross_profit_block allGroups yearSettings gprSettings
                   yearIndex yId prev results)))"
  using assms
  by (simp_all add: gross_profit_block_def Let_def write_gross_profit_entry
      write_gross_profit_forced gpr_logic_gross_profit gpr_logic_results)

lemma sorted_unsorted_years: "map ys_id (sortedYearSettings unsorted_years) = [1, 2, 3, 4]"
  by code_simp

lemma sample_categories:
  "cogs_category_of (toLowerCase ''Opening Stock (Raw Materials)'') = OpeningRM"
  "cogs_category_of (toLowerCase ''Purchases of Raw Materials'') = PurchaseRM"
  "cogs_category_of (toLowerCase ''Closing Stock (Raw Materials)'') = ClosingRM"
  "cogs_category_of (toLowerCase ''Factory Wages'') = Manufacturing"
  by code_simp+

lemma sample_total_revenue: "total_revenue [sample_revenue_group, sample_cogs_group] 2 = 50000"
proof -
  have "find (\<lambda>g. js_includes (toLowerCase (group_name g)) ''revenue'')
          [sample_revenue_group, sample_cogs_group] = Some sample_revenue_group"
    by code_simp
  then show ?thesis
    by (simp add: total_revenue_def sample_revenue_group_def revenue_row_def dp_val_def)
qed

lemma sample_cogs_fields:
  "purchasesRM (cogs_loop [sample_revenue_group, sample_cogs_group] 1 2 (Some sample_prev) r) = 24000"
  "manufacturingExpenses (cogs_loop [sample_revenue_group, sample_cogs_group] 1 2 (Some sample_prev) r) = 6500"
  "otherRMCosts (cogs_loop [sample_revenue_group, sample_cogs_group] 1 2 (Some sample_prev) r) = 0"
  "openWIP (cogs_loop [sample_revenue_group, sample_cogs_group] 1 2 (Some sample_prev) r) = 0"
  "closeWIP (cogs_loop [sample_revenue_group, sample_cogs_group] 1 2 (Some sample_prev) r) = 0"
  "openFG (cogs_loop [sample_revenue_group, sample_cogs_group] 1 2 (Some sample_prev) r) = 0"
  "closeFG (cogs_loop [sample_revenue_group, sample_cogs_group] 1 2 (Some sample_prev) r) = 0"
  unfolding cogs_loop_def sample_cogs_found option.case
  by (simp_all add: cogs_init_def cogs_row_def Let_def
      sample_cogs_group_def sample_categories dp_val_def)

lemma sample_cogs_opening:
  "r 2 ''_forced_opening_stock_rm'' = None \<Longrightarrow>
   openStockRM (cogs_loop [sample_revenue_group, sample_cogs_group] 1 2 (Some sample_prev) r) = 3000"
  using cogs_loop_opening [OF sample_cogs_found sample_opening_row, of 1 2 "Some sample_prev" r]
  by (simp add: prev_get_or_def get_or_def js_or_def sample_prev_def)

lemma cogs_loop_results_other_year:
  "y \<noteq> yId \<Longrightarrow> cogs_results (cogs_loop allGroups yearIndex yId prev results) y k = results y k"
  by (simp add: cogs_loop_def cogs_init_def cogs_rows_other_year split: option.splits)

lemma cogs_loop_results_forced:
  "cogs_results (cogs_loop allGroups yearIndex yId prev results) yId ''_forced_opening_stock_rm''
     = results yId ''_forced_opening_stock_rm''"
  by (simp add: cogs_loop_def cogs_init_def cogs_rows_forced split: option.splits)

lemma sample_gpr_enabled: "gpr_enabled (Some sample_gpr)"
  by (simp add: gpr_enabled_def sample_gpr_def)

lemma sample_year2_block:
  "gross_profit_block [sample_revenue_group, sample_cogs_group]
      unsorted_years (Some sample_gpr) 1 2 (Some sample_prev) empty_results =
   \<lparr>gp_totalRevenue = 50000,
    gp_state = gpr_logic (Some sample_gpr) unsorted_years 1 2 (Some sample_prev) 50000
      (cogs_loop [sample_revenue_group, sample_cogs_group] 1 2 (Some sample_prev)
         (set_result (set_result empty_results 2 ''Total Revenue'' 50000)
            2 ''Total Sales'' 50000)),
    gp_results = write_gross_profit 2 50000
      (gpr_logic (Some sample_gpr) unsorted_years 1 2 (Some sample_prev) 50000
        (cogs_loop [sample_revenue_group, sample_cogs_group] 1 2 (Some sample_prev)
           (set_result (set_result empty_results 2 ''Total Revenue'' 50000)
              2 ''Total Sales'' 50000)))\<rparr>"
  by (simp only: gross_profit_block_def Let_def sample_total_revenue)

lemma sample_year2_closing:
  "closeStockRM (gp_state (gross_profit_block [sample_revenue_group, sample_cogs_group]
      unsorted_years (Some sample_gpr) 1 2 (Some sample_prev) empty_results)) = 4500"
proof -
  let ?r = "set_result (set_result empty_results 2 ''Total Revenue'' 50000)
              2 ''Total Sales'' 50000"
  have forced: "?r 2 ''_forced_opening_stock_rm'' = None"
    by (simp add: set_result_apply empty_results_def)
  have target: "prev_get_or (Some sample_prev) ''_actual_gpr'' 0
                  + gpr_increment (Some sample_gpr) 1 = 42"
    by (simp add: prev_get_or_def get_or_def js_or_def sample_prev_def gpr_increment_def
        sample_gpr_def)
  have pos: "(0::real) < 50000" "(0::nat) < 1"
    by simp_all
  show ?thesis
    unfolding sample_year2_block gross_profit_out.select_convs
      gpr_logic_closing [OF sample_gpr_enabled pos] target sample_cogs_fields
      sample_cogs_opening [of ?r, OF forced]
    by simp
qed

lemma sample_year2_forced:
  "gp_results (gross_profit_block [sample_revenue_group, sample_cogs_group]
      unsorted_years (Some sample_gpr) 1 2 (Some sample_prev) empty_results) y
      ''_forced_opening_stock_rm'' = (if y = 4 then Some 4500 else None)"
proof -
  let ?r = "set_result (set_result empty_results 2 ''Total Revenue'' 50000)
              2 ''Total Sales'' 50000"
  let ?st = "cogs_loop [sample_revenue_group, sample_cogs_group] 1 2 (Some sample_prev) ?r"
  have next_year: "unsorted_years ! (1 + 1) = \<lparr>ys_id = 4, ys_year = ''2028-2029''\<rparr>"
    "length unsorted_years = 4"
    by (simp_all add: unsorted_years_def)
  have before: "cogs_results ?st y ''_forced_opening_stock_rm'' = None"
    by (cases "y = 2")
       (simp_all add: cogs_loop_results_forced cogs_loop_results_other_year
          set_result_apply empty_results_def)
  have pos: "(0::real) < 50000" "(0::nat) < 1"
    by simp_all
  have closing: "closeStockRM (gpr_logic (Some sample_gpr) unsorted_years 1 2
                    (Some sample_prev) 50000 ?st) = 4500"
    using sample_year2_closing
    unfolding sample_year2_block gross_profit_out.select_convs .
  show ?thesis
    unfolding sample_year2_block gross_profit_out.select_convs write_gross_profit_forced
      gpr_logic_results [OF sample_gpr_enabled pos] next_year closing before
    by simp
qed

text \<open>
  Claim C4 holds for the solved closing stock and the gross profit (see
  \<open>gross_profit_block_target\<close>), but the forced opening stock goes to
  \<^verbatim>\<open>yearSettings[yearIndex + 1]\<close>, an index into the list as passed in, while
  \<^verbatim>\<open>yearIndex\<close> counts in the sorted list. With the four year settings of the sample
  in the order 2026, 2025, 2028, 2027 the engine walks the ids 1, 2, 3, 4; in year 2
  (index 1) it solves a closing stock of 4500 and stores it as forced opening stock of
  year 4, not of year 3, so that year 4 later opens with the 4500 of year 2 whatever
  year 3 closed with (6000 here).
\<close>

theorem forced_opening_stock_misses_next_year:
  "map ys_id (sortedYearSettings unsorted_years) = [1, 2, 3, 4]
   \<and> closeStockRM (gp_state (gross_profit_block [sample_revenue_group, sample_cogs_group]
        unsorted_years (Some sample_gpr) 1 2 (Some sample_prev) empty_results)) = 4500
   \<and> gp_results (gross_profit_block [sample_revenue_group, sample_cogs_group]
        unsorted_years (Some sample_gpr) 1 2 (Some sample_prev) empty_results) 3
        ''_forced_opening_stock_rm'' = None
   \<and> gp_results (gross_profit_block [sample_revenue_group, sample_cogs_group]
        unsorted_years (Some sample_gpr) 1 2 (Some sample_prev) empty_results) 4
        ''_forced_opening_stock_rm'' = Some 4500
   \<and> openStockRM (cogs_loop [sample_revenue_group, sample_cogs_group] 3 4
        (Some [''Closing Stock (Raw Materials)'' \<mapsto> 6000])
        (gp_results (gross_profit_block [sample_revenue_group, sample_cogs_group]
           unsorted_years (Some sample_gpr) 1 2 (Some sample_prev) empty_results))) = 4500"
  using cogs_loop_opening [OF sample_cogs_found sample_opening_row, of 3 4
      "Some [''Closing Stock (Raw Materials)'' \<mapsto> 6000]"
      "gp_results (gross_profit_block [sample_revenue_group, sample_cogs_group]
           unsorted_years (Some sample_gpr) 1 2 (Some sample_prev) empty_results)"]
  by (simp add: sorted_unsorted_years sample_year2_closing sample_year2_forced
      del: One_nat_def)



section \<open>Properties of the fixed-asset block\<close>

lemma fixed_key_facts:
  "\<not> js_includes (trim (toLowerCase ''Net block'')) ''gross block''"
  "\<not> js_includes (trim (toLowerCase ''_net_block_carry'')) ''gross block''"
  "trim (toLowerCase ''_net_block_carry'') \<noteq> ''net block''"
  "js_includes (trim (toLowerCase ''Gross block'')) ''gross block''"
  by code_simp+

lemma fixed_asset_row_keeps:
  assumes "r yId ''Gross block'' = Some gb" "r yId ''Net block'' = Some nb"
    "r yId ''_net_block_carry'' = Some nb"
  shows "fixed_asset_row yId gb nb r row yId ''Gross block'' = Some gb
       \<and> fixed_asset_row yId gb nb r row yId ''Net block'' = Some nb
       \<and> fixed_asset_row yId gb nb r row yId ''_net_block_carry'' = Some nb"
  using assms fixed_key_facts
  by (auto simp: fixed_asset_row_def Let_def set_result_apply)

lemma fixed_asset_rows_keep:
  assumes "r yId ''Gross block'' = Some gb" "r yId ''Net block'' = Some nb"
    "r yId ''_net_block_carry'' = Some nb"
  shows "foldl (fixed_asset_row yId gb nb) r rs yId ''Gross block'' = Some gb
       \<and> foldl (fixed_asset_row yId gb nb) r rs yId ''Net block'' = Some nb
       \<and> foldl (fixed_asset_row yId gb nb) r rs yId ''_net_block_carry'' = Some nb"
  using assms
proof (induction rs arbitrary: r)
  case Nil
  then show ?case by simp
next
  case (Cons row rs)
  from fixed_asset_row_keeps [of r yId gb nb row] Cons.prems
  show ?case by (simp add: Cons.IH)
qed

lemma store_fixed_assets_entries:
  "store_fixed_assets allGroups yId gb nb aa results yId ''Gross block'' = Some gb
   \<and> store_fixed_assets allGroups yId gb nb aa results yId ''Net block'' = Some nb
   \<and> store_fixed_assets allGroups yId gb nb aa results yId ''_net_block_carry'' = Some nb"
proof -
  define r0 where "r0 = set_result (set_result (set_result results yId ''Gross block'' gb)
    yId ''Net block'' nb) yId ''_net_block_carry'' nb"
  have r0: "r0 yId ''Gross block'' = Some gb" "r0 yId ''Net block'' = Some nb"
    "r0 yId ''_net_block_carry'' = Some nb"
    by (simp_all add: r0_def set_result_apply)
  have keep: "foldl (fixed_asset_row yId gb nb) r0 rs yId ''Gross block'' = Some gb
       \<and> foldl (fixed_asset_row yId gb nb) r0 rs yId ''Net block'' = Some nb
       \<and> foldl (fixed_asset_row yId gb nb) r0 rs yId ''_net_block_carry'' = Some nb" for rs
    using fixed_asset_rows_keep [of r0 yId gb nb rs] r0 by simp
  show ?thesis
    using r0 keep
    by (simp add: store_fixed_assets_def Let_def set_result_apply r0_def [symmetric]
        split: option.splits)
qed

text \<open>
  The carry of the fixed-asset block. After the first year the gross block is the value
  that the previous year stored under the internal key \<open>_net_block_carry\<close> plus what
  the filter over the asset register yields for the year; in every year the net block is
  the gross block minus the depreciation of the year; gross block and net block are
  stored under their names, and the net block under the carry key.
\<close>

lemma gross_block_carries_net_block:
  "(0 < yearIndex \<and> prev ''_net_block_carry'' = Some prevNetBlock \<longrightarrow>
      fa_grossBlock (fixed_assets_block allGroups yearSettings projectCostsData yearIndex yId
         (Some prev) depreciation results) =
        prevNetBlock + asset_additions yearSettings projectCostsData yearIndex yId)
   \<and> fa_netBlock (fixed_assets_block allGroups yearSettings projectCostsData yearIndex yId
         prevYearResults depreciation results) =
        fa_grossBlock (fixed_assets_block allGroups yearSettings projectCostsData yearIndex yId
          prevYearResults depreciation results) - depreciation
   \<and> fa_results (fixed_assets_block allGroups yearSettings projectCostsData yearIndex yId
         prevYearResults depreciation results) yId ''Gross block'' =
        Some (fa_grossBlock (fixed_assets_block allGroups yearSettings projectCostsData
                yearIndex yId prevYearResults depreciation results))
   \<and> fa_results (fixed_assets_block allGroups yearSettings projectCostsData yearIndex yId
         prevYearResults depreciation results) yId ''Net block'' =
        Some (fa_netBlock (fixed_assets_block allGroups yearSettings projectCostsData
                yearIndex yId prevYearResults depreciation results))
   \<and> fa_results (fixed_assets_block allGroups yearSettings projectCostsData yearIndex yId
         prevYearResults depreciation results) yId ''_net_block_carry'' =
        Some (fa_netBlock (fixed_assets_block allGroups yearSettings projectCostsData
                yearIndex yId prevYearResults depreciation results))"
  by (simp add: fixed_assets_block_def Let_def store_fixed_assets_entries prev_net_block_def
      js_or_def)

text \<open>
  On the sample report, whose two year settings are in chronological order, the second
  year adds the asset bought in that year to the carried net block.
\<close>

lemma sample_additions_year2: "asset_additions sample_years sample_assets 1 2 = 20000"
proof -
  have "filter (asset_added_in_year ''2026-2027'' 2) sample_assets = [sample_assets ! 1]"
    by code_simp
  moreover have "sample_years ! 1 = \<lparr>ys_id = 2, ys_year = ''2026-2027''\<rparr>"
    "length sample_years = 2" "amount (sample_assets ! 1) = 20000"
    by (simp_all add: sample_years_def sample_assets_def)
  ultimately show ?thesis
    by (simp add: asset_additions_def Let_def)
qed

lemma gross_block_carries_net_block_sample:
  "(0::nat) < 1 \<and> [''_net_block_carry'' \<mapsto> 81000] ''_net_block_carry'' = Some (81000::real)
   \<and> fa_grossBlock (fixed_assets_block [sample_fixed_group] sample_years sample_assets 1 2
         (Some [''_net_block_carry'' \<mapsto> 81000]) 15150 empty_results) = 101000
   \<and> fa_netBlock (fixed_assets_block [sample_fixed_group] sample_years sample_assets 1 2
         (Some [''_net_block_carry'' \<mapsto> 81000]) 15150 empty_results) = 85850
   \<and> fa_results (fixed_assets_block [sample_fixed_group] sample_years sample_assets 1 2
         (Some [''_net_block_carry'' \<mapsto> 81000]) 15150 empty_results) 2 ''_net_block_carry''
       = Some 85850"
  using gross_block_carries_net_block [of 1 "[''_net_block_carry'' \<mapsto> 81000]" 81000
      "[sample_fixed_group]" sample_years sample_assets 2 15150 empty_results
      "Some [''_net_block_carry'' \<mapsto> 81000]"]
  by (simp add: sample_additions_year2 del: One_nat_def)





section \<open>Properties of the cash flow statement and the ratios\<close>

lemma getVal_cong:
  "r y k = r' y k \<Longrightarrow> getVal r allGroups y k = getVal r' allGroups y k"
  by (simp add: getVal_def)

lemma investing_financing_entries:
  "fin_results (investing_financing allGroups yId prev l results) yId
     ''Net Cash from Operating Activities'' = Some (v_cashFromOperating l)"
  "fin_results (investing_financing allGroups yId prev l results) yId
     ''Net Cash from Investment Activities'' =
       Some (fin_cashFromInvesting (investing_financing allGroups yId prev l results))"
  "fin_results (investing_financing allGroups yId prev l results) yId
     ''Net Cash from Financing Activities'' =
       Some (fin_cashFromFinancing (investing_financing allGroups yId prev l results))"
  by (simp_all add: investing_financing_def Let_def set_result_apply)

lemma investing_financing_cash_rows:
  "fin_results (investing_financing allGroups yId prev l results) yId ''Cash & Bank Balance''
     = results yId ''Cash & Bank Balance''"
  "fin_results (investing_financing allGroups yId prev l results) yId ''Cash in Hand''
     = results yId ''Cash in Hand''"
  "fin_results (investing_financing allGroups yId prev l results) yId ''Balance with Banks''
     = results yId ''Balance with Banks''"
  by (simp_all add: investing_financing_def Let_def set_result_apply)


lemma closing_cash_values:
  "c_netCashFlow (closing_cash_and_assets allGroups yearIndex yId prev l fin) =
     v_cashFromOperating l + fin_cashFromInvesting fin + fin_cashFromFinancing fin"
  "c_closingCashCFS (closing_cash_and_assets allGroups yearIndex yId prev l fin) =
     c_openingCash (closing_cash_and_assets allGroups yearIndex yId prev l fin)
       + c_netCashFlow (closing_cash_and_assets allGroups yearIndex yId prev l fin)"
  "c_totalCurrentAssets (closing_cash_and_assets allGroups yearIndex yId prev l fin) =
     v_nonCashCurrentAssets l
       + c_closingCashCFS (closing_cash_and_assets allGroups yearIndex yId prev l fin)"
  "c_totalAssets (closing_cash_and_assets allGroups yearIndex yId prev l fin) =
     c_closingCashCFS (closing_cash_and_assets allGroups yearIndex yId prev l fin)
       + v_nonCashCurrentAssets l + v_totalFixedAssets l
       + c_nonCurrentAssets (closing_cash_and_assets allGroups yearIndex yId prev l fin)"
  by (simp_all add: closing_cash_and_assets_def Let_def)

lemma closing_cash_entries:
  "c_results (closing_cash_and_assets allGroups yearIndex yId prev l fin) yId k =
     (if k = ''Total Assets'' \<or> k = ''Total Asset''
      then Some (c_totalAssets (closing_cash_and_assets allGroups yearIndex yId prev l fin))
      else if k = ''Total Non-Current Assets''
      then Some (c_nonCurrentAssets (closing_cash_and_assets allGroups yearIndex yId prev l fin))
      else if k = ''Total Operating Current Assets'' then Some (v_nonCashCurrentAssets l)
      else if k = ''Total Current Assets'' \<or> k = ''Total current asset''
      then Some (c_totalCurrentAssets (closing_cash_and_assets allGroups yearIndex yId prev l fin))
      else if k = ''Balance with Banks'' then Some 0
      else if k = ''Total Cash & Bank'' \<or> k = ''Cash in Hand'' \<or> k = ''Cash & bank balance''
              \<or> k = ''Cash & Bank Balance'' \<or> k = ''Closing Cash Balance (as per CFS)''
      then Some (c_closingCashCFS (closing_cash_and_assets allGroups yearIndex yId prev l fin))
      else if k = ''Add: Opening Cash Balance''
      then Some (c_openingCash (closing_cash_and_assets allGroups yearIndex yId prev l fin))
      else if k = ''Net Cash Flow During the Year''
      then Some (c_netCashFlow (closing_cash_and_assets allGroups yearIndex yId prev l fin))
      else fin_results fin yId k)"
  by (simp add: closing_cash_and_assets_def Let_def set_result_apply)

lemma opening_cash_first_year:
  "c_openingCash (closing_cash_and_assets allGroups 0 yId prev l
       (investing_financing allGroups yId prev l results)) =
     js_or (getVal results allGroups yId ''Cash & Bank Balance'')
       (js_or (getVal results allGroups yId ''Cash in Hand'')
          (js_or (getVal results allGroups yId ''Balance with Banks'') 0))"
proof -
  let ?fin = "investing_financing allGroups yId prev l results"
  let ?r = "set_result (fin_results ?fin) yId ''Net Cash Flow During the Year''
              (v_cashFromOperating l + fin_cashFromInvesting ?fin + fin_cashFromFinancing ?fin)"
  have "getVal ?r allGroups yId ''Cash & Bank Balance''
          = getVal results allGroups yId ''Cash & Bank Balance''"
    "getVal ?r allGroups yId ''Cash in Hand'' = getVal results allGroups yId ''Cash in Hand''"
    "getVal ?r allGroups yId ''Balance with Banks''
          = getVal results allGroups yId ''Balance with Banks''"
    by (rule getVal_cong, simp add: set_result_apply investing_financing_cash_rows)+
  then show ?thesis
    by (simp add: closing_cash_and_assets_def Let_def opening_cash_def)
qed

lemma opening_cash_later_year:
  assumes "0 < yearIndex" and "cash_carried p prevClosing"
  shows "c_openingCash (closing_cash_and_assets allGroups yearIndex yId (Some p) l fin)
           = prevClosing"
  using assms
  by (simp add: closing_cash_and_assets_def Let_def opening_cash_def cash_carried_def
      get_or_def js_or_def)

lemma balance_sheet_check_frame:
  "k \<notin> {''Balance Sheet Check'', ''BALANCE SHEET CHECK (Assets - Liabilities)'',
         ''Cash & Bank Balance (as per Balance Sheet)'', ''CFS Check Diff'', ''_bsCashChange'',
         ''_netCashFlowFromCFS'', ''_cfsReconciliationDiff''} \<Longrightarrow>
   balance_sheet_check yId prev l c yId k = c_results c yId k"
  by (simp add: balance_sheet_check_def Let_def set_result_apply)

lemma getVal_set_result_other:
  "k' \<noteq> k \<Longrightarrow> getVal (set_result r y k v) allGroups y' k' = getVal r allGroups y' k'"
  by (rule getVal_cong) (simp add: set_result_apply)

lemma store_ratio_Some: "store_ratio r y k (Some v) = Some (set_result r y k v)"
  by (simp add: store_ratio_def)

lemma ratio_values:
  "debtEquityRatio l =
     Some (if v_totalNetWorth l \<noteq> 0
           then (v_totalTermLiabilities l + v_totalCurrentLiabilities l) / v_totalNetWorth l
           else 0)"
  "currentRatio l tca =
     Some (if v_totalCurrentLiabilities l \<noteq> 0 then tca / v_totalCurrentLiabilities l else 0)"
  "quickRatio l tca inventory =
     Some (if v_totalCurrentLiabilities l \<noteq> 0
           then (tca - inventory) / v_totalCurrentLiabilities l else 0)"
  "fixedAssetsCoverageRatio l =
     Some (if v_totalFixedAssets l \<noteq> 0 then v_totalNetWorth l / v_totalFixedAssets l else 0)"
  "interestCoverageRatio l =
     Some (if v_totalInterest l \<noteq> 0 then v_opProfit l / v_totalInterest l else 0)"
  "dscr l =
     Some (if v_termLoanPrincipal l + v_termLoanInterest l \<noteq> 0
           then (v_pat l + v_depreciation l + v_termLoanInterest l)
                  / (v_termLoanPrincipal l + v_termLoanInterest l)
           else 0)"
  "roce l =
     Some (if v_totalNetWorth l + v_totalTermLiabilities l \<noteq> 0
           then v_opProfit l / (v_totalNetWorth l + v_totalTermLiabilities l) * 100 else 0)"
  "netProfitMargin l totalRevenue =
     Some (if totalRevenue \<noteq> 0 then v_pat l / totalRevenue * 100 else 0)"
  "returnOnNetWorth l =
     Some (if v_totalNetWorth l \<noteq> 0 then v_pat l / v_totalNetWorth l * 100 else 0)"
  "inventoryTurnoverRatio yearIndex st =
     Some (if avgInventory yearIndex st \<noteq> 0 then cogs st / avgInventory yearIndex st else 0)"
  "fixedAssetTurnoverRatio l totalRevenue =
     Some (if v_totalFixedAssets l \<noteq> 0 then totalRevenue / v_totalFixedAssets l else 0)"
  "grossProfitRatio totalRevenue st =
     Some (if totalRevenue \<noteq> 0 then grossProfit totalRevenue st / totalRevenue * 100 else 0)"
  by (simp_all add: debtEquityRatio_def currentRatio_def quickRatio_def
      fixedAssetsCoverageRatio_def interestCoverageRatio_def dscr_def roce_def
      netProfitMargin_def returnOnNetWorth_def inventoryTurnoverRatio_def
      fixedAssetTurnoverRatio_def grossProfitRatio_def js_divide_def times_100_def Let_def)

lemma assetTurnoverRatio_value:
  "m ''Total Asset'' = Some totalAsset \<Longrightarrow>
   assetTurnoverRatio totalRevenue m =
     Some (if totalAsset \<noteq> 0 then totalRevenue / totalAsset else 0)"
  by (simp add: assetTurnoverRatio_def js_divide_def)

text \<open>
  The ratio block always stores: it returns a map, which differs from the one it was
  given in the eleven ratio entries only.
\<close>

lemma store_key_ratios_result:
  assumes "results yId ''Total Asset'' = Some totalAsset"
  shows "\<exists>r'. store_key_ratios allGroups yearIndex yId l totalRevenue st tca results = Some r'
     \<and> (\<forall>k. r' yId k =
          (if k = ''Asset turnover ratio'' then assetTurnoverRatio totalRevenue (results yId)
           else if k = ''Fixed asset turnover ratio''
           then fixedAssetTurnoverRatio l totalRevenue
           else if k = ''Inventory turnover ratio'' then inventoryTurnoverRatio yearIndex st
           else if k = ''Return on Net worth'' then returnOnNetWorth l
           else if k = ''Net profit margin'' then netProfitMargin l totalRevenue
           else if k = ''Return on Capital Employed (ROCE)'' then roce l
           else if k = ''Debt Service Coverage Ratio (DSCR)'' then dscr l
           else if k = ''Interest coverage ratio'' then interestCoverageRatio l
           else if k = ''Fixed Assets Coverage Ratio'' then fixedAssetsCoverageRatio l
           else if k = ''Quick ratio''
           then quickRatio l tca
                  (closeStockRM st + getVal results allGroups yId ''Stock in process''
                     + getVal results allGroups yId ''Finished goods'')
           else if k = ''Current ratio'' then currentRatio l tca
           else results yId k))"
proof -
  obtain v1 where v1: "currentRatio l tca = Some v1"
    by (simp add: ratio_values)
  obtain v2 where v2: "quickRatio l tca
      (closeStockRM st + getVal results allGroups yId ''Stock in process''
         + getVal results allGroups yId ''Finished goods'') = Some v2"
    by (simp add: ratio_values)
  obtain v3 where v3: "fixedAssetsCoverageRatio l = Some v3"
    by (simp add: ratio_values)
  obtain v4 where v4: "interestCoverageRatio l = Some v4"
    by (simp add: ratio_values)
  obtain v5 where v5: "dscr l = Some v5"
    by (simp add: ratio_values)
  obtain v6 where v6: "roce l = Some v6"
    by (simp add: ratio_values)
  obtain v7 where v7: "netProfitMargin l totalRevenue = Some v7"
    by (simp add: ratio_values)
  obtain v8 where v8: "returnOnNetWorth l = Some v8"
    by (simp add: ratio_values)
  obtain v9 where v9: "inventoryTurnoverRatio yearIndex st = Some v9"
    by (simp add: ratio_values)
  obtain v10 where v10: "fixedAssetTurnoverRatio l totalRevenue = Some v10"
    by (simp add: ratio_values)
  obtain v11 where v11: "assetTurnoverRatio totalRevenue (results yId) = Some v11"
    using assms by (simp add: assetTurnoverRatio_value)
  have same_divisor: "assetTurnoverRatio totalRevenue m = Some v11"
    if "m ''Total Asset'' = Some totalAsset" for m
    using that v11 assms by (simp add: assetTurnoverRatio_def)
  show ?thesis
    unfolding store_key_ratios_def Let_def
    by (simp add: v1 v2 v3 v4 v5 v6 v7 v8 v9 v10 v11 same_divisor assms set_result_apply
        getVal_set_result_other store_ratio_Some)
qed

lemma year_end_result:
  fixes allGroups yearIndex yId prev l totalRevenue st results
  defines "c \<equiv> closing_cash_and_assets allGroups yearIndex yId prev l
                  (investing_financing allGroups yId prev l results)"
  shows "\<exists>r'. year_end allGroups yearIndex yId prev l totalRevenue st results = Some r'
     \<and> r' yId ''Current ratio'' = currentRatio l (c_totalCurrentAssets c)
     \<and> r' yId ''Quick ratio'' =
         quickRatio l (c_totalCurrentAssets c)
           (closeStockRM st
              + getVal (balance_sheet_check yId prev l c) allGroups yId ''Stock in process''
              + getVal (balance_sheet_check yId prev l c) allGroups yId ''Finished goods'')
     \<and> r' yId ''Fixed Assets Coverage Ratio'' = fixedAssetsCoverageRatio l
     \<and> r' yId ''Interest coverage ratio'' = interestCoverageRatio l
     \<and> r' yId ''Debt Service Coverage Ratio (DSCR)'' = dscr l
     \<and> r' yId ''Return on Capital Employed (ROCE)'' = roce l
     \<and> r' yId ''Net profit margin'' = netProfitMargin l totalRevenue
     \<and> r' yId ''Return on Net worth'' = returnOnNetWorth l
     \<and> r' yId ''Inventory turnover ratio'' = inventoryTurnoverRatio yearIndex st
     \<and> r' yId ''Fixed asset turnover ratio'' = fixedAssetTurnoverRatio l totalRevenue
     \<and> r' yId ''Asset turnover ratio'' =
         (if c_totalAssets c \<noteq> 0 then js_divide totalRevenue (c_totalAssets c) else Some 0)
     \<and> r' yId ''Total Asset'' = Some (c_totalAssets c)
     \<and> cash_carried (r' yId) (c_closingCashCFS c)
     \<and> (\<forall>k. k \<notin> {''Asset turnover ratio'', ''Fixed asset turnover ratio'',
                 ''Inventory turnover ratio'', ''Return on Net worth'', ''Net profit margin'',
                 ''Return on Capital Employed (ROCE)'', ''Debt Service Coverage Ratio (DSCR)'',
                 ''Interest coverage ratio'', ''Fixed Assets Coverage Ratio'', ''Quick ratio'',
                 ''Current ratio'', ''Balance Sheet Check'',
                 ''BALANCE SHEET CHECK (Assets - Liabilities)'',
                 ''Cash & Bank Balance (as per Balance Sheet)'', ''CFS Check Diff'',
                 ''_bsCashChange'', ''_netCashFlowFromCFS'', ''_cfsReconciliationDiff''}
            \<longrightarrow> r' yId k = c_results c yId k)"
proof -
  have ta: "balance_sheet_check yId prev l c yId ''Total Asset'' = Some (c_totalAssets c)"
    by (simp add: balance_sheet_check_frame closing_cash_entries c_def)
  have cash: "cash_carried (balance_sheet_check yId prev l c yId) (c_closingCashCFS c)"
    by (simp add: cash_carried_def balance_sheet_check_frame closing_cash_entries c_def)
  from ta store_key_ratios_result [where results = "balance_sheet_check yId prev l c"
      and yId = yId and totalAsset = "c_totalAssets c" and allGroups = allGroups
      and yearIndex = yearIndex and l = l and totalRevenue = totalRevenue and st = st
      and tca = "c_totalCurrentAssets c"]
  obtain r' where r': "store_key_ratios allGroups yearIndex yId l totalRevenue st
       (c_totalCurrentAssets c) (balance_sheet_check yId prev l c) = Some r'"
    and entries: "\<And>k. r' yId k =
          (if k = ''Asset turnover ratio''
           then assetTurnoverRatio totalRevenue (balance_sheet_check yId prev l c yId)
           else if k = ''Fixed asset turnover ratio''
           then fixedAssetTurnoverRatio l totalRevenue
           else if k = ''Inventory turnover ratio'' then inventoryTurnoverRatio yearIndex st
           else if k = ''Return on Net worth'' then returnOnNetWorth l
           else if k = ''Net profit margin'' then netProfitMargin l totalRevenue
           else if k = ''Return on Capital Employed (ROCE)'' then roce l
           else if k = ''Debt Service Coverage Ratio (DSCR)'' then dscr l
           else if k = ''Interest coverage ratio'' then interestCoverageRatio l
           else if k = ''Fixed Assets Coverage Ratio'' then fixedAssetsCoverageRatio l
           else if k = ''Quick ratio''
           then quickRatio l (c_totalCurrentAssets c)
                  (closeStockRM st
                     + getVal (balance_sheet_check yId prev l c) allGroups yId
                         ''Stock in process''
                     + getVal (balance_sheet_check yId prev l c) allGroups yId
                         ''Finished goods'')
           else if k = ''Current ratio'' then currentRatio l (c_totalCurrentAssets c)
           else balance_sheet_check yId prev l c yId k)"
    by blast
  have "year_end allGroups yearIndex yId prev l totalRevenue st results = Some r'"
    using r' by (simp add: year_end_def Let_def c_def)
  moreover have "r' yId ''Asset turnover ratio'' =
      (if c_totalAssets c \<noteq> 0 then js_divide totalRevenue (c_totalAssets c) else Some 0)"
    by (simp add: entries assetTurnoverRatio_def ta)
  moreover have "cash_carried (r' yId) (c_closingCashCFS c)"
    using cash by (simp add: cash_carried_def entries)
  moreover have "r' yId ''Total Asset'' = Some (c_totalAssets c)"
    using ta by (simp add: entries)
  moreover have "r' yId k = c_results c yId k"
    if "k \<notin> {''Asset turnover ratio'', ''Fixed asset turnover ratio'',
                 ''Inventory turnover ratio'', ''Return on Net worth'', ''Net profit margin'',
                 ''Return on Capital Employed (ROCE)'', ''Debt Service Coverage Ratio (DSCR)'',
                 ''Interest coverage ratio'', ''Fixed Assets Coverage Ratio'', ''Quick ratio'',
                 ''Current ratio'', ''Balance Sheet Check'',
                 ''BALANCE SHEET CHECK (Assets - Liabilities)'',
                 ''Cash & Bank Balance (as per Balance Sheet)'', ''CFS Check Diff'',
                 ''_bsCashChange'', ''_netCashFlowFromCFS'', ''_cfsReconciliationDiff''}" for k
    using that by (simp add: entries balance_sheet_check_frame)
  ultimately show ?thesis
    by (simp add: entries)
qed



text \<open>
  Claim C2. For every year the entry \<open>Net Cash Flow During the Year\<close> is the sum of the
  entries for the net cash from operating, investing and financing activities; the
  closing cash balance is the opening cash plus the net cash flow, where the opening cash
  is the cash from the input rows in the first year and the closing cash that the
  previous year left in its map in every later year; and at the end of the year the
  cash entries of the balance sheet hold the closing cash (with \<open>Balance with Banks\<close>
  set to \<open>0\<close>), which is also the cash component of the total assets and of the three
  entries that the next year reads its opening cash from.
\<close>

theorem closing_cash_from_cash_flow:
  fixes allGroups yearIndex yId prev l totalRevenue st results
  defines "fin \<equiv> investing_financing allGroups yId prev l results"
    and "c \<equiv> closing_cash_and_assets allGroups yearIndex yId prev l
                (investing_financing allGroups yId prev l results)"
  shows "\<exists>r'. year_end allGroups yearIndex yId prev l totalRevenue st results = Some r'
     \<and> r' yId ''Net Cash from Operating Activities'' = Some (v_cashFromOperating l)
     \<and> r' yId ''Net Cash from Investment Activities'' = Some (fin_cashFromInvesting fin)
     \<and> r' yId ''Net Cash from Financing Activities'' = Some (fin_cashFromFinancing fin)
     \<and> r' yId ''Net Cash Flow During the Year'' =
         Some (v_cashFromOperating l + fin_cashFromInvesting fin + fin_cashFromFinancing fin)
     \<and> r' yId ''Add: Opening Cash Balance'' = Some (c_openingCash c)
     \<and> r' yId ''Closing Cash Balance (as per CFS)'' =
         Some (c_openingCash c
                + (v_cashFromOperating l + fin_cashFromInvesting fin
                     + fin_cashFromFinancing fin))
     \<and> (yearIndex = 0 \<longrightarrow>
          c_openingCash c =
            js_or (getVal results allGroups yId ''Cash & Bank Balance'')
              (js_or (getVal results allGroups yId ''Cash in Hand'')
                 (js_or (getVal results allGroups yId ''Balance with Banks'') 0)))
     \<and> (0 < yearIndex \<longrightarrow>
          (\<forall>p prevClosing. prev = Some p \<and> cash_carried p prevClosing \<longrightarrow>
             c_openingCash c = prevClosing))
     \<and> r' yId ''Cash & Bank Balance'' = r' yId ''Closing Cash Balance (as per CFS)''
     \<and> r' yId ''Cash & bank balance'' = r' yId ''Closing Cash Balance (as per CFS)''
     \<and> r' yId ''Cash in Hand'' = r' yId ''Closing Cash Balance (as per CFS)''
     \<and> r' yId ''Total Cash & Bank'' = r' yId ''Closing Cash Balance (as per CFS)''
     \<and> r' yId ''Balance with Banks'' = Some 0
     \<and> r' yId ''Total Current Assets'' =
         Some (v_nonCashCurrentAssets l + c_closingCashCFS c)
     \<and> r' yId ''Total Assets'' =
         Some (c_closingCashCFS c + v_nonCashCurrentAssets l + v_totalFixedAssets l
                + c_nonCurrentAssets c)
     \<and> c_closingCashCFS c =
         c_openingCash c
           + (v_cashFromOperating l + fin_cashFromInvesting fin + fin_cashFromFinancing fin)
     \<and> cash_carried (r' yId) (c_closingCashCFS c)"
proof -
  from year_end_result [of allGroups yearIndex yId prev l totalRevenue st results]
  obtain r' where r': "year_end allGroups yearIndex yId prev l totalRevenue st results = Some r'"
    and carried: "cash_carried (r' yId) (c_closingCashCFS c)"
    and frame: "\<And>k. k \<notin> {''Asset turnover ratio'', ''Fixed asset turnover ratio'',
                 ''Inventory turnover ratio'', ''Return on Net worth'', ''Net profit margin'',
                 ''Return on Capital Employed (ROCE)'', ''Debt Service Coverage Ratio (DSCR)'',
                 ''Interest coverage ratio'', ''Fixed Assets Coverage Ratio'', ''Quick ratio'',
                 ''Current ratio'', ''Balance Sheet Check'',
                 ''BALANCE SHEET CHECK (Assets - Liabilities)'',
                 ''Cash & Bank Balance (as per Balance Sheet)'', ''CFS Check Diff'',
                 ''_bsCashChange'', ''_netCashFlowFromCFS'', ''_cfsReconciliationDiff''}
            \<Longrightarrow> r' yId k = c_results c yId k"
    unfolding c_def by blast
  have first: "yearIndex = 0 \<longrightarrow>
          c_openingCash c =
            js_or (getVal results allGroups yId ''Cash & Bank Balance'')
              (js_or (getVal results allGroups yId ''Cash in Hand'')
                 (js_or (getVal results allGroups yId ''Balance with Banks'') 0))"
    unfolding c_def by (auto simp: opening_cash_first_year)
  have later: "0 < yearIndex \<longrightarrow>
          (\<forall>p prevClosing. prev = Some p \<and> cash_carried p prevClosing \<longrightarrow>
             c_openingCash c = prevClosing)"
    unfolding c_def by (auto simp: opening_cash_later_year)
  have entries: "r' yId ''Net Cash from Operating Activities'' = Some (v_cashFromOperating l)"
    "r' yId ''Net Cash from Investment Activities'' = Some (fin_cashFromInvesting fin)"
    "r' yId ''Net Cash from Financing Activities'' = Some (fin_cashFromFinancing fin)"
    "r' yId ''Net Cash Flow During the Year'' = Some (c_netCashFlow c)"
    "r' yId ''Add: Opening Cash Balance'' = Some (c_openingCash c)"
    "r' yId ''Closing Cash Balance (as per CFS)'' = Some (c_closingCashCFS c)"
    "r' yId ''Cash & Bank Balance'' = Some (c_closingCashCFS c)"
    "r' yId ''Cash & bank balance'' = Some (c_closingCashCFS c)"
    "r' yId ''Cash in Hand'' = Some (c_closingCashCFS c)"
    "r' yId ''Total Cash & Bank'' = Some (c_closingCashCFS c)"
    "r' yId ''Balance with Banks'' = Some 0"
    "r' yId ''Total Current Assets'' = Some (c_totalCurrentAssets c)"
    "r' yId ''Total Assets'' = Some (c_totalAssets c)"
    unfolding c_def fin_def
    by (simp_all add: frame [unfolded c_def] closing_cash_entries investing_financing_entries)
  have vals: "c_netCashFlow c =
      v_cashFromOperating l + fin_cashFromInvesting fin + fin_cashFromFinancing fin"
    "c_closingCashCFS c = c_openingCash c + c_netCashFlow c"
    "c_totalCurrentAssets c = v_nonCashCurrentAssets l + c_closingCashCFS c"
    "c_totalAssets c = c_closingCashCFS c + v_nonCashCurrentAssets l + v_totalFixedAssets l
       + c_nonCurrentAssets c"
    unfolding c_def fin_def by (rule closing_cash_values)+
  show ?thesis
    using r' carried first later entries vals by simp
qed

lemma sample_cash_carried: "cash_carried sample_prev_cash 4000"
  by (simp add: cash_carried_def sample_prev_cash_def)

lemma sample_later_year_flows:
  "fin_cashFromInvesting (investing_financing [] 2 (Some sample_prev_cash) sample_cash_locals
      empty_results) = - 20500"
  "fin_cashFromFinancing (investing_financing [] 2 (Some sample_prev_cash) sample_cash_locals
      empty_results) = 1000"
  by (simp_all add: investing_financing_def Let_def sample_cash_locals_def idle_locals_def
      sample_prev_cash_def get_or_def js_or_def prev_get_or_def getVal_def set_result_apply
      empty_results_def)

lemma sample_first_year_flows:
  "fin_cashFromInvesting (investing_financing [sample_cash_group] 1 None sample_cash_locals
      empty_results) = - 101500"
  "fin_cashFromFinancing (investing_financing [sample_cash_group] 1 None sample_cash_locals
      empty_results) = 1000"
  by (simp_all add: investing_financing_def Let_def sample_cash_locals_def idle_locals_def
      js_or_def prev_get_or_def getVal_def set_result_apply
      empty_results_def sample_cash_group_def toLowerCase_def dp_val_def)

lemma sample_cash_input:
  "getVal empty_results [sample_cash_group] 1 ''Cash & Bank Balance'' = 0"
  "getVal empty_results [sample_cash_group] 1 ''Cash in Hand'' = 2500"
  by (simp_all add: getVal_def empty_results_def sample_cash_group_def toLowerCase_def
      dp_val_def)

theorem closing_cash_from_cash_flow_witness:
  "(0::nat) < 1 \<and> cash_carried sample_prev_cash 4000
   \<and> (\<exists>r'. year_end [] 1 2 (Some sample_prev_cash) sample_cash_locals 50000
               (cogs_init empty_results) empty_results = Some r'
          \<and> r' 2 ''Add: Opening Cash Balance'' = Some 4000
          \<and> r' 2 ''Net Cash Flow During the Year'' = Some 9500
          \<and> r' 2 ''Closing Cash Balance (as per CFS)'' = Some 13500
          \<and> r' 2 ''Cash in Hand'' = Some 13500
          \<and> cash_carried (r' 2) 13500)
   \<and> (\<exists>r'. year_end [sample_cash_group] 0 1 None sample_cash_locals 40000
               (cogs_init empty_results) empty_results = Some r'
          \<and> r' 1 ''Add: Opening Cash Balance'' = Some 2500
          \<and> r' 1 ''Net Cash Flow During the Year'' = Some (- 71500)
          \<and> r' 1 ''Closing Cash Balance (as per CFS)'' = Some (- 69000))"
proof -
  have locals: "v_cashFromOperating sample_cash_locals = 29000"
    by (simp add: sample_cash_locals_def)
  have later: "\<exists>r'. year_end [] 1 2 (Some sample_prev_cash) sample_cash_locals 50000
               (cogs_init empty_results) empty_results = Some r'
          \<and> r' 2 ''Add: Opening Cash Balance'' = Some 4000
          \<and> r' 2 ''Net Cash Flow During the Year'' = Some 9500
          \<and> r' 2 ''Closing Cash Balance (as per CFS)'' = Some 13500
          \<and> r' 2 ''Cash in Hand'' = Some 13500
          \<and> cash_carried (r' 2) 13500"
    using closing_cash_from_cash_flow [of "[]" 1 2 "Some sample_prev_cash" sample_cash_locals
        50000 "cogs_init empty_results" empty_results] sample_cash_carried
    by (auto simp: sample_later_year_flows locals simp del: One_nat_def)
  have first: "\<exists>r'. year_end [sample_cash_group] 0 1 None sample_cash_locals 40000
               (cogs_init empty_results) empty_results = Some r'
          \<and> r' 1 ''Add: Opening Cash Balance'' = Some 2500
          \<and> r' 1 ''Net Cash Flow During the Year'' = Some (- 71500)
          \<and> r' 1 ''Closing Cash Balance (as per CFS)'' = Some (- 69000)"
    using closing_cash_from_cash_flow [of "[sample_cash_group]" 0 1 None sample_cash_locals
        40000 "cogs_init empty_results" empty_results]
    by (auto simp: sample_first_year_flows locals sample_cash_input js_or_def
        simp del: One_nat_def)
  from later first sample_cash_carried show ?thesis by simp
qed

section \<open>Properties of the ratios over numbers with special values\<close>










text \<open>
  On finite operands the two divisions agree: where the division over the reals yields a
  quotient, the division over numbers with special values yields the same quotient,
  unless it overflows.
\<close>

lemma js_divide_finite:
  "js_divide a b = Some q \<Longrightarrow> js_div (Finite a) (Finite b) = js_result q"
  by (auto simp add: js_divide_def split: if_splits)

text \<open>
  \<^verbatim>\<open>NaN\<close> differs from \<open>0\<close>, so a divisor that is \<^verbatim>\<open>NaN\<close> passes every test
  \<^verbatim>\<open>!== 0\<close> and the ratio is \<^verbatim>\<open>NaN\<close>; only the truthiness test of the gross
  profit ratio turns it into \<open>0\<close>.
\<close>

lemma js_nan_operand:
  "js_add x NaN = NaN" "js_mul x NaN = NaN" "js_div x NaN = NaN"
  by (cases x; simp)+

lemma nan_passes_zero_test:
  "r_totalCurrentLiabilities i = NaN \<Longrightarrow> currentRatio_js i = NaN"
  "r_totalCurrentLiabilities i = NaN \<Longrightarrow> quickRatio_js i = NaN"
  "r_totalFixedAssets i = NaN \<Longrightarrow> fixedAssetsCoverageRatio_js i = NaN"
  "r_totalInterest i = NaN \<Longrightarrow> interestCoverageRatio_js i = NaN"
  "r_totalRevenue i = NaN \<Longrightarrow> netProfitMargin_js i = NaN"
  "r_totalNetWorth i = NaN \<Longrightarrow> returnOnNetWorth_js i = NaN"
  "r_totalNetWorth i = NaN \<Longrightarrow> debtEquityRatio_js i = NaN"
  "r_totalFixedAssets i = NaN \<Longrightarrow> fixedAssetTurnoverRatio_js i = NaN"
  "r_totalRevenue i = NaN \<Longrightarrow> grossProfitRatio_js i = Finite 0"
  by (simp_all add: currentRatio_js_def quickRatio_js_def fixedAssetsCoverageRatio_js_def
      interestCoverageRatio_js_def netProfitMargin_js_def returnOnNetWorth_js_def
      debtEquityRatio_js_def fixedAssetTurnoverRatio_js_def grossProfitRatio_js_def
      js_truthy_def js_nan_operand)














end
